theory Spec2Isabelle
  imports Main "HOL-Library.AList"
begin

section \<open>Python values and exceptions\<close>

text \<open>
  The program moves JSON-shaped Python values around: the provider's responses, the
  definitions inside them and the dump bundle. A dictionary is an association list in
  insertion order (Python dictionaries keep it, and \<open>.values()\<close> iterates in it); its
  keys are strings, as in every JSON document and every keyword-argument dictionary.
  \<open>None\<close> is \<open>JNull\<close>. Floats and timestamps never take part in a decision of the code
  and are left out.
\<close>

datatype json =
    JNull
  | JBool bool
  | JInt int
  | JStr string
  | JList "json list"
  | JObj "(string \<times> json) list"

type_synonym dict = "(string \<times> json) list"

text \<open>
  The arguments of the \<open>ValueError\<close>s the code raises. The f-strings that format them
  are not modelled; the constructor keeps which \<open>raise\<close> statement it was and the values
  it was given.
\<close>

datatype reason =
    RequestFailed json json         \<comment> \<open>\<open>Request failed with status {status}.\n{response}\<close>\<close>
  | NoAssetsFound json              \<comment> \<open>\<open>No assets found for filters\n{filters}\<close>\<close>
  | MultipleAssetsFound json "json list"
                                    \<comment> \<open>\<open>Multiple assets found for filters {filters}.\n{ids}\<close>\<close>
  | DescribeFailed json             \<comment> \<open>\<open>ValueError(response)\<close> of \<open>describe_asset\<close>\<close>
  | Required string                 \<comment> \<open>\<open>account_id is required\<close> and its siblings\<close>
  | NotInDump string                \<comment> \<open>\<open>No datasources in dump file.\<close> and its siblings\<close>
  | InvalidLiteral string           \<comment> \<open>\<open>int()\<close> on a string that is no integer\<close>

datatype exn =
    ValueError reason
  | KeyError string                 \<comment> \<open>a dictionary subscript or \<open>pop\<close> on a missing key\<close>
  | IndexError                      \<comment> \<open>list index out of range\<close>
  | KeyNotFound string json         \<comment> \<open>\<open>IndexError(f"Key {arn_key} not found in {dataset}")\<close>\<close>
  | TypeError
  | AttributeError
  | ClientError json                \<comment> \<open>botocore's \<open>ClientError\<close> with its \<open>response\<close>\<close>
  | OtherError string               \<comment> \<open>any other exception a provider call raises\<close>

subsection \<open>Sequencing of computations that may raise\<close>

definition bindE :: "exn + 'a \<Rightarrow> ('a \<Rightarrow> exn + 'b) \<Rightarrow> exn + 'b" where
  "bindE m f = (case m of Inl e \<Rightarrow> Inl e | Inr a \<Rightarrow> f a)"

fun mapE :: "('a \<Rightarrow> exn + 'b) \<Rightarrow> 'a list \<Rightarrow> exn + 'b list" where
  "mapE f [] = Inr []"
| "mapE f (x # xs) = bindE (f x) (\<lambda>y. bindE (mapE f xs) (\<lambda>ys. Inr (y # ys)))"

text \<open>
  A call of the provider may change the provider's state and may raise. Such a
  computation takes the state and returns the outcome with the state after it; an
  exception leaves the effects made so far in place, as in Python.
\<close>

type_synonym ('a, 's) io = "'s \<Rightarrow> (exn + 'a) \<times> 's"

definition ret :: "'a \<Rightarrow> ('a, 's) io" where
  "ret a s = (Inr a, s)"

definition lift :: "exn + 'a \<Rightarrow> ('a, 's) io" where
  "lift m s = (m, s)"

definition bindS :: "('a, 's) io \<Rightarrow> ('a \<Rightarrow> ('b, 's) io) \<Rightarrow> ('b, 's) io" where
  "bindS m f s = (case m s of (Inl e, s') \<Rightarrow> (Inl e, s') | (Inr a, s') \<Rightarrow> f a s')"

fun mapS :: "('a \<Rightarrow> ('b, 's) io) \<Rightarrow> 'a list \<Rightarrow> ('b list, 's) io" where
  "mapS f [] = ret []"
| "mapS f (x # xs) = bindS (f x) (\<lambda>y. bindS (mapS f xs) (\<lambda>ys. ret (y # ys)))"

text \<open>A list comprehension \<open>[f(x) for x in xs if cond(x)]\<close>, evaluated left to right.\<close>

fun comprehension :: "('a \<Rightarrow> exn + bool) \<Rightarrow> ('a \<Rightarrow> exn + 'b) \<Rightarrow> 'a list \<Rightarrow> exn + 'b list" where
  "comprehension cond f [] = Inr []"
| "comprehension cond f (x # xs) =
     bindE (cond x) (\<lambda>b.
       if b then bindE (f x) (\<lambda>y. bindE (comprehension cond f xs) (\<lambda>ys. Inr (y # ys)))
       else comprehension cond f xs)"

subsection \<open>Operations of Python on values\<close>

text \<open>\<open>d[k]\<close>: a missing key raises \<open>KeyError\<close>; \<open>None\<close>, numbers, strings and lists
  subscripted by a string raise \<open>TypeError\<close>.\<close>

fun subscript :: "json \<Rightarrow> string \<Rightarrow> exn + json" where
  "subscript (JObj d) k = (case map_of d k of Some v \<Rightarrow> Inr v | None \<Rightarrow> Inl (KeyError k))"
| "subscript _ k = Inl TypeError"

text \<open>\<open>d.get(k, default)\<close> and \<open>d.get(k)\<close>: only dictionaries have the method.\<close>

fun py_get_default :: "json \<Rightarrow> string \<Rightarrow> json \<Rightarrow> exn + json" where
  "py_get_default (JObj d) k dflt = (case map_of d k of Some v \<Rightarrow> Inr v | None \<Rightarrow> Inr dflt)"
| "py_get_default _ k dflt = Inl AttributeError"

definition py_get :: "json \<Rightarrow> string \<Rightarrow> exn + json" where
  "py_get v k = py_get_default v k JNull"

fun starts_with :: "string \<Rightarrow> string \<Rightarrow> bool" where
  "starts_with [] s = True"
| "starts_with (k # ks) [] = False"
| "starts_with (k # ks) (x # xs) = (k = x \<and> starts_with ks xs)"

fun contains_str :: "string \<Rightarrow> string \<Rightarrow> bool" where
  "contains_str k [] = (k = [])"
| "contains_str k (x # xs) = (starts_with k (x # xs) \<or> contains_str k xs)"

text \<open>\<open>k in v\<close> for a string \<open>k\<close>: key membership in a dictionary, element membership in
  a list, substring test in a string, \<open>TypeError\<close> otherwise.\<close>

fun py_in :: "string \<Rightarrow> json \<Rightarrow> exn + bool" where
  "py_in k (JObj d) = Inr (k \<in> set (map fst d))"
| "py_in k (JList xs) = Inr (JStr k \<in> set xs)"
| "py_in k (JStr s) = Inr (contains_str k s)"
| "py_in k _ = Inl TypeError"

text \<open>\<open>len(v)\<close>.\<close>

fun py_len :: "json \<Rightarrow> exn + nat" where
  "py_len (JList xs) = Inr (length xs)"
| "py_len (JStr s) = Inr (length s)"
| "py_len (JObj d) = Inr (length d)"
| "py_len _ = Inl TypeError"

text \<open>\<open>for x in v\<close>: a list gives its elements, a dictionary its keys, a string its
  characters; nothing else is iterable.\<close>

fun py_iter :: "json \<Rightarrow> exn + json list" where
  "py_iter (JList xs) = Inr xs"
| "py_iter (JObj d) = Inr (map (\<lambda>kv. JStr (fst kv)) d)"
| "py_iter (JStr s) = Inr (map (\<lambda>c. JStr [c]) s)"
| "py_iter _ = Inl TypeError"

text \<open>\<open>d.values()\<close> and \<open>d.items()\<close> exist on dictionaries only.\<close>

fun py_items :: "json \<Rightarrow> exn + dict" where
  "py_items (JObj d) = Inr d"
| "py_items _ = Inl AttributeError"

text \<open>A value used as a number in a comparison with an integer: \<open>bool\<close> is a subclass
  of \<open>int\<close> in Python; every other type modelled here raises \<open>TypeError\<close>.\<close>

fun as_number :: "json \<Rightarrow> exn + int" where
  "as_number (JInt n) = Inr n"
| "as_number (JBool b) = Inr (if b then 1 else 0)"
| "as_number _ = Inl TypeError"

text \<open>\<open>v + suffix\<close> for a string literal \<open>suffix\<close>: only a string can be added to.\<close>

fun str_add :: "json \<Rightarrow> string \<Rightarrow> exn + json" where
  "str_add (JStr s) suffix = Inr (JStr (s @ suffix))"
| "str_add _ suffix = Inl TypeError"

text \<open>\<open>v[k] = x\<close> for a string \<open>k\<close>: a dictionary keeps the position of a key it already
  has and appends a new one; nothing else takes a string subscript.\<close>

fun set_item :: "json \<Rightarrow> string \<Rightarrow> json \<Rightarrow> exn + json" where
  "set_item (JObj d) k x = Inr (JObj (AList.update k x d))"
| "set_item _ k x = Inl TypeError"

text \<open>\<open>d.pop(k)\<close> on a dictionary, returning the value and the dictionary without the
  key.\<close>

definition dict_pop :: "string \<Rightarrow> dict \<Rightarrow> exn + json \<times> dict" where
  "dict_pop k d =
     (case map_of d k of
        None \<Rightarrow> Inl (KeyError k)
      | Some v \<Rightarrow> Inr (v, AList.delete k d))"

text \<open>\<open>m[k]\<close> on a remap table.\<close>

definition lookup :: "dict \<Rightarrow> string \<Rightarrow> exn + json" where
  "lookup m k = (case map_of m k of Some v \<Rightarrow> Inr v | None \<Rightarrow> Inl (KeyError k))"

text \<open>\<open>sep.split\<close> on a string with a one-character separator: every occurrence of the
  separator cuts, so the result has one part more than there are separators.\<close>

fun split_on :: "char \<Rightarrow> string \<Rightarrow> string list" where
  "split_on c [] = [[]]"
| "split_on c (x # xs) =
     (if x = c then [] # split_on c xs
      else (let r = split_on c xs in (x # hd r) # tl r))"

text \<open>A set of strings, as the list of its elements without repetition. Python leaves
  the iteration order of a set unspecified; the list fixes one order, and no theorem
  below depends on which.\<close>

definition py_set :: "string list \<Rightarrow> string list" where
  "py_set xs = remdups xs"

section \<open>essentials.py\<close>

subsection \<open>Locator (ARN) functions\<close>

definition get_id_from_arn :: "string \<Rightarrow> string" where
  "get_id_from_arn arn = last (split_on CHR ''/'' arn)"

definition get_account_id_from_arn :: "string \<Rightarrow> exn + string" where
  "get_account_id_from_arn arn =
     (let parts = split_on CHR '':'' arn
      in if 4 < length parts then Inr (parts ! 4) else Inl IndexError)"

text \<open>The call \<open>get_id_from_arn(v)\<close> on a value that was read out of a dictionary:
  \<open>v.split\<close> exists on strings only.\<close>

fun get_id_from_arn_dyn :: "json \<Rightarrow> exn + string" where
  "get_id_from_arn_dyn (JStr arn) = Inr (get_id_from_arn arn)"
| "get_id_from_arn_dyn _ = Inl AttributeError"


subsection \<open>The provider client\<close>

text \<open>
  A provider operation takes its keyword arguments as a dictionary. The client is the
  record of the operations the code calls on \<open>qs_client\<close>; \<open>'s\<close> is the state of the
  provider's account.
\<close>

type_synonym 's client_fn = "dict \<Rightarrow> (json, 's) io"

record 's qs_client =
  describe_analysis_definition :: "dict \<Rightarrow> 's \<Rightarrow> (exn + json) \<times> 's"
  describe_analysis_permissions :: "dict \<Rightarrow> 's \<Rightarrow> (exn + json) \<times> 's"
  describe_data_set :: "dict \<Rightarrow> 's \<Rightarrow> (exn + json) \<times> 's"
  describe_data_set_permissions :: "dict \<Rightarrow> 's \<Rightarrow> (exn + json) \<times> 's"
  describe_data_source :: "dict \<Rightarrow> 's \<Rightarrow> (exn + json) \<times> 's"
  describe_data_source_permissions :: "dict \<Rightarrow> 's \<Rightarrow> (exn + json) \<times> 's"
  create_data_source :: "dict \<Rightarrow> 's \<Rightarrow> (exn + json) \<times> 's"
  update_data_source :: "dict \<Rightarrow> 's \<Rightarrow> (exn + json) \<times> 's"
  create_data_set :: "dict \<Rightarrow> 's \<Rightarrow> (exn + json) \<times> 's"
  update_data_set :: "dict \<Rightarrow> 's \<Rightarrow> (exn + json) \<times> 's"
  create_analysis :: "dict \<Rightarrow> 's \<Rightarrow> (exn + json) \<times> 's"
  update_analysis :: "dict \<Rightarrow> 's \<Rightarrow> (exn + json) \<times> 's"
  create_dashboard :: "dict \<Rightarrow> 's \<Rightarrow> (exn + json) \<times> 's"
  update_dashboard :: "dict \<Rightarrow> 's \<Rightarrow> (exn + json) \<times> 's"
  update_dashboard_published_version :: "dict \<Rightarrow> 's \<Rightarrow> (exn + json) \<times> 's"

subsection \<open>General functions\<close>

text \<open>The status test that \<open>find_assets\<close> and \<open>create_or_update_asset\<close> both end with:
  \<open>status = response.get("Status", 0)\<close>, then \<open>ValueError\<close> unless \<open>200 \<le> status < 300\<close>.\<close>

definition check_status :: "json \<Rightarrow> exn + json" where
  "check_status response =
     bindE (py_get_default response ''Status'' (JInt 0)) (\<lambda>status.
     bindE (as_number status) (\<lambda>n.
       if n < 200 \<or> n \<ge> 300 then Inl (ValueError (RequestFailed status response))
       else Inr response))"

definition find_assets :: "json \<Rightarrow> 's client_fn \<Rightarrow> json \<Rightarrow> string \<Rightarrow> (json, 's) io" where
  "find_assets account_id search_fn filters lookup_field =
     bindS (search_fn [(''AwsAccountId'', account_id), (''Filters'', filters),
                       (''MaxResults'', JInt 10)]) (\<lambda>response.
     lift (bindE (check_status response) (\<lambda>_.
           bindE (py_get_default response lookup_field (JList [])) (\<lambda>found.
           bindE (py_len found) (\<lambda>n.
             if n = 0 then Inl (ValueError (NoAssetsFound filters))
             else subscript response lookup_field)))))"

text \<open>\<open>describe_fn(AwsAccountId=account_id, **params)\<close>: a \<open>params\<close> that already has the
  key \<open>AwsAccountId\<close> gives the keyword twice, which is a \<open>TypeError\<close> before the provider
  is called.\<close>

definition describe_asset ::
  "json \<Rightarrow> 's client_fn \<Rightarrow> dict \<Rightarrow> string option \<Rightarrow> (json, 's) io" where
  "describe_asset account_id describe_fn params lookup_field =
     (if ''AwsAccountId'' \<in> set (map fst params) then lift (Inl TypeError) else
      bindS (describe_fn ((''AwsAccountId'', account_id) # params)) (\<lambda>response.
      lift (bindE (py_get_default response ''Status'' (JInt 0)) (\<lambda>status.
            bindE (as_number status) (\<lambda>n.
              if 200 \<le> n \<and> n < 300 then
                (case lookup_field of
                   None \<Rightarrow> Inr response
                 | Some f \<Rightarrow> if f = [] then Inr response else py_get response f)
              else Inl (ValueError (DescribeFailed response)))))))"

text \<open>The generator, as the list of what it yields; whoever consumes it (\<open>set\<close>, \<open>list\<close>)
  meets the exception at the entry that raises.\<close>

definition get_asset_ids_from_definition :: "json \<Rightarrow> string \<Rightarrow> exn + string list" where
  "get_asset_ids_from_definition definitions arn_key =
     bindE (py_iter definitions) (mapE (\<lambda>dataset.
       bindE (py_in arn_key dataset) (\<lambda>present.
         if \<not> present then Inl (KeyNotFound arn_key dataset)
         else bindE (subscript dataset arn_key) get_id_from_arn_dyn)))"

subsection \<open>Finding asset identifiers\<close>

definition find_asset_ids ::
  "json \<Rightarrow> 's client_fn \<Rightarrow> json \<Rightarrow> string \<Rightarrow> string \<Rightarrow> (json list, 's) io" where
  "find_asset_ids account_id search_fn filters lookup_field id_key =
     bindS (find_assets account_id search_fn filters lookup_field) (\<lambda>assets.
     lift (bindE (py_iter assets) (mapE (\<lambda>asset. py_get asset id_key))))"

definition find_asset_id ::
  "json \<Rightarrow> 's client_fn \<Rightarrow> json \<Rightarrow> string \<Rightarrow> string \<Rightarrow> (json, 's) io" where
  "find_asset_id account_id search_fn filters lookup_field id_key =
     bindS (find_asset_ids account_id search_fn filters lookup_field id_key) (\<lambda>ids.
     lift (if length ids > 1 then Inl (ValueError (MultipleAssetsFound filters ids))
           else (case ids of [] \<Rightarrow> Inl IndexError | x # _ \<Rightarrow> Inr x)))"

subsection \<open>Create or update\<close>

text \<open>
  \<open>except ClientError as err\<close> catches the provider's client errors only; the handler
  reads \<open>err.response["Error"]["Code"]\<close>. On \<open>ResourceExistsException\<close> it pops
  \<open>Permissions\<close> without a test and \<open>Type\<close> under a test, then updates. The \<open>pop\<close>s mutate
  the caller's dictionary; no caller reads the two keys afterwards, so the model returns
  the response only.
\<close>

definition error_code :: "json \<Rightarrow> exn + json" where
  "error_code response = bindE (subscript response ''Error'') (\<lambda>e. subscript e ''Code'')"

definition create_or_update_asset ::
  "dict \<Rightarrow> 's client_fn \<Rightarrow> 's client_fn \<Rightarrow> (json, 's) io" where
  "create_or_update_asset params create_fn update_fn s =
     (case create_fn params s of
        (Inr response, s1) \<Rightarrow> (check_status response, s1)
      | (Inl (ClientError r), s1) \<Rightarrow>
          (case error_code r of
             Inl e \<Rightarrow> (Inl e, s1)
           | Inr code \<Rightarrow>
               if code = JStr ''ResourceExistsException'' then
                 (case dict_pop ''Permissions'' params of
                    Inl e \<Rightarrow> (Inl e, s1)
                  | Inr (_, params1) \<Rightarrow>
                      (let params2 = (if ''Type'' \<in> set (map fst params1)
                                      then AList.delete ''Type'' params1 else params1)
                       in bindS (update_fn params2) (\<lambda>response. lift (check_status response)) s1))
               else (Inl (ClientError r), s1))
      | (Inl e, s1) \<Rightarrow> (Inl e, s1))"

section \<open>export\_assets.py\<close>

subsection \<open>Identifiers referenced by a definition\<close>

definition get_analysis_dataset_ids :: "json \<Rightarrow> exn + string list" where
  "get_analysis_dataset_ids analysis_definition =
     bindE (py_get analysis_definition ''Definition'') (\<lambda>d.
     bindE (py_get d ''DataSetIdentifierDeclarations'') (\<lambda>decls.
     bindE (get_asset_ids_from_definition decls ''DataSetArn'') (\<lambda>ids.
     Inr (py_set ids))))"

definition get_rls_dataset_ids :: "json list \<Rightarrow> exn + string list" where
  "get_rls_dataset_ids dataset_definitions =
     bindE (comprehension (py_in ''RowLevelPermissionDataSet'')
              (\<lambda>ds. py_get ds ''RowLevelPermissionDataSet'') dataset_definitions)
       (\<lambda>rls_dataset_definitions.
          if length rls_dataset_definitions = 0 then Inr []
          else bindE (get_asset_ids_from_definition (JList rls_dataset_definitions) ''Arn'')
                 (\<lambda>ids. Inr (py_set ids)))"

definition get_datasource_ids :: "json list \<Rightarrow> exn + string list" where
  "get_datasource_ids dataset_definitions =
     bindE (mapE (\<lambda>ds.
              bindE (py_get_default ds ''PhysicalTableMap'' (JObj [])) (\<lambda>ptm.
              bindE (py_items ptm) (\<lambda>items.
              comprehension (py_in ''RelationalTable'')
                (\<lambda>ref. py_get ref ''RelationalTable'') (map snd items))))
            dataset_definitions)
       (\<lambda>refs.
          let datasorce_references = concat refs
          in if length datasorce_references = 0 then Inr []
             else bindE (get_asset_ids_from_definition (JList datasorce_references)
                           ''DataSourceArn'')
                    (\<lambda>ids. Inr (py_set ids)))"

subsection \<open>Fetching definitions and permissions\<close>

definition get_analysis_definition :: "json \<Rightarrow> json \<Rightarrow> 's qs_client \<Rightarrow> (json, 's) io" where
  "get_analysis_definition account_id analysis_id qs =
     describe_asset account_id (describe_analysis_definition qs)
       [(''AnalysisId'', analysis_id)] None"

definition get_analysis_permissions :: "json \<Rightarrow> json \<Rightarrow> 's qs_client \<Rightarrow> (json, 's) io" where
  "get_analysis_permissions account_id analysis_id qs =
     describe_asset account_id (describe_analysis_permissions qs)
       [(''AnalysisId'', analysis_id)] (Some ''Permissions'')"

definition get_dataset_definition :: "json \<Rightarrow> json \<Rightarrow> 's qs_client \<Rightarrow> (json, 's) io" where
  "get_dataset_definition account_id dataset_id qs =
     describe_asset account_id (describe_data_set qs)
       [(''DataSetId'', dataset_id)] (Some ''DataSet'')"

definition get_dataset_permissions :: "json \<Rightarrow> json \<Rightarrow> 's qs_client \<Rightarrow> (json, 's) io" where
  "get_dataset_permissions account_id dataset_id qs =
     describe_asset account_id (describe_data_set_permissions qs)
       [(''DataSetId'', dataset_id)] (Some ''Permissions'')"

definition get_datasource_definition :: "json \<Rightarrow> json \<Rightarrow> 's qs_client \<Rightarrow> (json, 's) io" where
  "get_datasource_definition account_id datasource_id qs =
     describe_asset account_id (describe_data_source qs)
       [(''DataSourceId'', datasource_id)] (Some ''DataSource'')"

definition get_datasource_permissions :: "json \<Rightarrow> json \<Rightarrow> 's qs_client \<Rightarrow> (json, 's) io" where
  "get_datasource_permissions account_id datasource_id qs =
     describe_asset account_id (describe_data_source_permissions qs)
       [(''DataSourceId'', datasource_id)] (Some ''Permissions'')"

subsection \<open>Records of the dump\<close>

definition dump_analysis :: "json \<Rightarrow> json \<Rightarrow> exn + json" where
  "dump_analysis definition permissions =
     bindE (subscript definition ''AnalysisId'') (\<lambda>analysis_id.
     bindE (subscript definition ''Name'') (\<lambda>name.
     bindE (subscript definition ''Definition'') (\<lambda>d.
     Inr (JObj [(''AnalysisId'', analysis_id), (''Name'', name), (''Definition'', d),
                (''Permissions'', permissions)]))))"

definition dump_dataset :: "json \<Rightarrow> json \<Rightarrow> exn + json" where
  "dump_dataset definition permissions =
     bindE (subscript definition ''DataSetId'') (\<lambda>dataset_id.
     bindE (subscript definition ''Name'') (\<lambda>name.
     bindE (subscript definition ''PhysicalTableMap'') (\<lambda>ptm.
     bindE (subscript definition ''LogicalTableMap'') (\<lambda>ltm.
     bindE (subscript definition ''OutputColumns'') (\<lambda>cols.
     bindE (subscript definition ''ImportMode'') (\<lambda>mode.
     bindE (py_get definition ''RowLevelPermissionDataSet'') (\<lambda>rls.
     bindE (py_get definition ''DataSetUsageConfiguration'') (\<lambda>usage.
     Inr (JObj [(''DataSetId'', dataset_id), (''Name'', name), (''PhysicalTableMap'', ptm),
                (''LogicalTableMap'', ltm), (''OutputColumns'', cols), (''ImportMode'', mode),
                (''Permissions'', permissions), (''RowLevelPermissionDataSet'', rls),
                (''DataSetUsageConfiguration'', usage)])))))))))"

definition dump_data_source :: "json \<Rightarrow> json \<Rightarrow> exn + json" where
  "dump_data_source definition permissions =
     bindE (subscript definition ''DataSourceId'') (\<lambda>datasource_id.
     bindE (subscript definition ''Name'') (\<lambda>name.
     bindE (subscript definition ''Type'') (\<lambda>type.
     bindE (subscript definition ''DataSourceParameters'') (\<lambda>parameters.
     bindE (py_get definition ''VpcConnectionProperties'') (\<lambda>vpc.
     bindE (py_get definition ''SslProperties'') (\<lambda>ssl.
     bindE (py_get definition ''ErrorInfo'') (\<lambda>error_info.
     Inr (JObj [(''DataSourceId'', datasource_id), (''Name'', name), (''Type'', type),
                (''DataSourceParameters'', parameters), (''Credentials'', JNull),
                (''Permissions'', permissions), (''VpcConnectionProperties'', vpc),
                (''SslProperties'', ssl), (''ErrorInfo'', error_info)]))))))))"

subsection \<open>The export\<close>

text \<open>One row \<open>{"definition": ..., "permissions": ...}\<close> of the three fetch loops.\<close>

definition fetch_row ::
  "(json \<Rightarrow> (json, 's) io) \<Rightarrow> (json \<Rightarrow> (json, 's) io) \<Rightarrow> string \<Rightarrow> (json, 's) io" where
  "fetch_row get_definition get_permissions ident =
     bindS (get_definition (JStr ident)) (\<lambda>d.
     bindS (get_permissions (JStr ident)) (\<lambda>p.
     ret (JObj [(''definition'', d), (''permissions'', p)])))"

text \<open>\<open>dump(definition=row["definition"], permissions=row["permissions"])\<close> for a row.\<close>

definition dump_row :: "(json \<Rightarrow> json \<Rightarrow> exn + json) \<Rightarrow> json \<Rightarrow> exn + json" where
  "dump_row dump row =
     bindE (subscript row ''definition'') (\<lambda>d.
     bindE (subscript row ''permissions'') (\<lambda>p. dump d p))"

text \<open>
  \<open>get_rls_dataset_ids\<close> is given the rows themselves; \<open>get_datasource_ids\<close> is given
  \<open>row["definition"]\<close> of each row.
\<close>

definition get_dump :: "json \<Rightarrow> 's qs_client option \<Rightarrow> json \<Rightarrow> (json, 's) io" where
  "get_dump account_id qs_client analysis_id =
     (if account_id = JNull then lift (Inl (ValueError (Required ''account_id'')))
      else case qs_client of
        None \<Rightarrow> lift (Inl (ValueError (Required ''qs_client'')))
      | Some qs \<Rightarrow>
     (if analysis_id = JNull then lift (Inl (ValueError (Required ''analysis_id'')))
      else
        bindS (get_analysis_definition account_id analysis_id qs) (\<lambda>analysis_definition.
        bindS (get_analysis_permissions account_id analysis_id qs) (\<lambda>analysis_permissions.
        bindS (lift (get_analysis_dataset_ids analysis_definition)) (\<lambda>analysis_dataset_ids.
        bindS (mapS (fetch_row (\<lambda>i. get_dataset_definition account_id i qs)
                               (\<lambda>i. get_dataset_permissions account_id i qs))
                 analysis_dataset_ids) (\<lambda>analysis_dataset_definitions.
        bindS (lift (get_rls_dataset_ids analysis_dataset_definitions)) (\<lambda>rls_dataset_ids.
        bindS (mapS (fetch_row (\<lambda>i. get_dataset_definition account_id i qs)
                               (\<lambda>i. get_dataset_permissions account_id i qs))
                 rls_dataset_ids) (\<lambda>rls_dataset_definitions.
        bindS (lift (bindE (mapE (\<lambda>row. subscript row ''definition'')
                              (analysis_dataset_definitions @ rls_dataset_definitions))
                       get_datasource_ids)) (\<lambda>datasource_ids.
        bindS (mapS (fetch_row (\<lambda>i. get_datasource_definition account_id i qs)
                               (\<lambda>i. get_datasource_permissions account_id i qs))
                 datasource_ids) (\<lambda>datasource_definitions.
        lift (bindE (dump_analysis analysis_definition analysis_permissions) (\<lambda>a.
              bindE (mapE (dump_row dump_dataset) analysis_dataset_definitions) (\<lambda>ads.
              bindE (mapE (dump_row dump_dataset) rls_dataset_definitions) (\<lambda>sds.
              bindE (mapE (dump_row dump_data_source) datasource_definitions) (\<lambda>dss.
              Inr (JObj [(''analysis'', a), (''analysis_datasets'', JList ads),
                         (''security_datasets'', JList sds),
                         (''datasources'', JList dss)]))))))))))))))))"


section \<open>import\_assets.py\<close>

text \<open>
  The import rewrites locators in place: \<open>prepare_dataset_definition\<close> and
  \<open>prepare_analysis_definition\<close> build a new top-level dictionary, but the nested
  dictionaries they assign into are the ones of the dump. The dump is the tree that
  \<open>json.load\<close> returned, so no two places of it share an object, and an assignment in
  place is the update of one path. A function that mutates its argument returns the
  argument after the call beside its result. When it raises, the import stops and
  nothing reads the half-rewritten dump again.
\<close>

definition IMPORT_SUFFIX :: string where
  "IMPORT_SUFFIX = ''-imported''"

subsection \<open>Data sources\<close>

definition prepare_datasource_definition :: "json \<Rightarrow> json \<Rightarrow> exn + dict" where
  "prepare_datasource_definition account_id datasource =
     bindE (py_items datasource) (\<lambda>items.
     let definition = filter (\<lambda>kv. snd kv \<noteq> JNull) items in
     bindE (subscript datasource ''Name'') (\<lambda>n.
     bindE (str_add n IMPORT_SUFFIX) (\<lambda>name.
     Inr (AList.update ''AwsAccountId'' account_id (AList.update ''Name'' name definition)))))"

definition import_datasource :: "'s qs_client \<Rightarrow> dict \<Rightarrow> (json, 's) io" where
  "import_datasource qs datasource =
     bindS (lift (subscript (JObj datasource) ''Name'')) (\<lambda>_.
     bindS (lift (subscript (JObj datasource) ''DataSourceId'')) (\<lambda>original_datasource_id.
     bindS (lift (str_add original_datasource_id IMPORT_SUFFIX)) (\<lambda>target_datasource_id.
     let params = AList.update ''DataSourceId'' target_datasource_id datasource in
     bindS (create_or_update_asset params (create_data_source qs) (update_data_source qs))
       (\<lambda>response.
     lift (bindE (subscript (JObj datasource) ''Name'') (\<lambda>name.
           bindE (subscript response ''Arn'') (\<lambda>arn.
           bindE (subscript response ''DataSourceId'') (\<lambda>new_id.
           Inr (JObj [(''name'', name), (''arn'', arn), (''new_id'', new_id),
                      (''org_id'', original_datasource_id)])))))))))"

definition import_datasources :: "json \<Rightarrow> 's qs_client \<Rightarrow> json \<Rightarrow> (json list, 's) io" where
  "import_datasources account_id qs datasources =
     bindS (lift (py_iter datasources)) (mapS (\<lambda>ds.
       bindS (lift (prepare_datasource_definition account_id ds)) (import_datasource qs)))"

subsection \<open>Datasets\<close>

text \<open>The body of the loop over the physical tables: the right-hand side is evaluated
  first, then the entry of \<open>table["RelationalTable"]\<close> is assigned.\<close>

definition rewrite_table :: "dict \<Rightarrow> json \<Rightarrow> exn + json" where
  "rewrite_table datasource_id_map table =
     bindE (subscript table ''RelationalTable'') (\<lambda>rel.
     bindE (subscript rel ''DataSourceArn'') (\<lambda>arn.
     bindE (get_id_from_arn_dyn arn) (\<lambda>ident.
     bindE (lookup datasource_id_map ident) (\<lambda>new_arn.
     bindE (set_item rel ''DataSourceArn'' new_arn) (\<lambda>rel'.
     set_item table ''RelationalTable'' rel')))))"

text \<open>The loop \<open>for table in definition["PhysicalTableMap"].values()\<close>.\<close>

definition rewrite_physical_tables :: "dict \<Rightarrow> json \<Rightarrow> exn + json" where
  "rewrite_physical_tables datasource_id_map ptm =
     bindE (py_items ptm) (\<lambda>tables.
     bindE (mapE (\<lambda>kt. bindE (rewrite_table datasource_id_map (snd kt))
                           (\<lambda>table'. Inr (fst kt, table'))) tables) (\<lambda>tables'.
     Inr (JObj tables')))"

text \<open>The rewrite of the row-level-security reference of a definition.\<close>

definition rewrite_rls :: "dict \<Rightarrow> dict \<Rightarrow> exn + dict" where
  "rewrite_rls dataset_id_map definition =
     (case map_of definition ''RowLevelPermissionDataSet'' of
        None \<Rightarrow> Inr definition
      | Some rls \<Rightarrow>
          bindE (py_in ''Arn'' rls) (\<lambda>has_arn.
            if has_arn then
              bindE (subscript rls ''Arn'') (\<lambda>arn.
              bindE (get_id_from_arn_dyn arn) (\<lambda>ident.
              bindE (lookup dataset_id_map ident) (\<lambda>new_arn.
              bindE (set_item rls ''Arn'' new_arn) (\<lambda>rls'.
              Inr (AList.update ''RowLevelPermissionDataSet'' rls' definition)))))
            else Inr definition))"

text \<open>The dataset of the dump after the call: the values of the two rewritten keys are
  the objects the definition holds.\<close>

definition dataset_after :: "dict \<Rightarrow> dict \<Rightarrow> json" where
  "dataset_after items definition =
     JObj (map (\<lambda>kv.
        if fst kv = ''PhysicalTableMap'' \<or> fst kv = ''RowLevelPermissionDataSet'' then
          (case map_of definition (fst kv) of
             Some v \<Rightarrow> (fst kv, v)
           | None \<Rightarrow> kv)
        else kv) items)"

definition prepare_dataset_definition ::
  "json \<Rightarrow> json \<Rightarrow> dict \<Rightarrow> dict \<Rightarrow> exn + dict \<times> json" where
  "prepare_dataset_definition account_id dataset datasource_id_map dataset_id_map =
     bindE (py_items dataset) (\<lambda>items.
     let definition = filter (\<lambda>kv. fst kv \<noteq> ''OutputColumns'' \<and> snd kv \<noteq> JNull) items in
     bindE (subscript dataset ''Name'') (\<lambda>n.
     bindE (str_add n IMPORT_SUFFIX) (\<lambda>name.
     let definition = AList.update ''AwsAccountId'' account_id
                        (AList.update ''Name'' name definition) in
     bindE (subscript (JObj definition) ''PhysicalTableMap'') (\<lambda>ptm.
     bindE (rewrite_physical_tables datasource_id_map ptm) (\<lambda>ptm'.
     let definition = AList.update ''PhysicalTableMap'' ptm' definition in
     bindE (rewrite_rls dataset_id_map definition) (\<lambda>definition.
     Inr (definition, dataset_after items definition)))))))"

definition import_dataset :: "'s qs_client \<Rightarrow> dict \<Rightarrow> (json, 's) io" where
  "import_dataset qs dataset =
     bindS (lift (subscript (JObj dataset) ''Name'')) (\<lambda>_.
     bindS (lift (subscript (JObj dataset) ''DataSetId'')) (\<lambda>original_dataset_id.
     bindS (lift (str_add original_dataset_id IMPORT_SUFFIX)) (\<lambda>target_dataset_id.
     let dataset = AList.update ''DataSetId'' target_dataset_id dataset in
     bindS (create_or_update_asset dataset (create_data_set qs) (update_data_set qs))
       (\<lambda>response.
     lift (bindE (subscript (JObj dataset) ''Name'') (\<lambda>name.
           bindE (subscript response ''Arn'') (\<lambda>arn.
           bindE (subscript response ''DataSetId'') (\<lambda>new_id.
           bindE (py_get response ''IngestionId'') (\<lambda>ingestion_id.
           bindE (py_get response ''IngestionArn'') (\<lambda>ingestion_arn.
           Inr (JObj [(''name'', name), (''arn'', arn), (''new_id'', new_id),
                      (''org_id'', original_dataset_id),
                      (''ingestion_id'', ingestion_id),
                      (''ingestion_arn'', ingestion_arn)])))))))))))"

text \<open>The comprehension of \<open>import_datasets\<close>: each dataset is prepared, then imported,
  before the next one is prepared. The second component is the list of the dump after
  the loop.\<close>

definition import_datasets ::
  "json \<Rightarrow> 's qs_client \<Rightarrow> json \<Rightarrow> dict \<Rightarrow> dict \<Rightarrow> (json list \<times> json, 's) io" where
  "import_datasets account_id qs datasets datasource_id_map dataset_id_map =
     bindS (lift (py_iter datasets)) (\<lambda>dss.
     bindS (mapS (\<lambda>ds.
              bindS (lift (prepare_dataset_definition account_id ds
                             datasource_id_map dataset_id_map)) (\<lambda>prepared.
              bindS (import_dataset qs (fst prepared)) (\<lambda>result.
              ret (result, snd prepared)))) dss) (\<lambda>rs.
     ret (map fst rs, (case datasets of JList _ \<Rightarrow> JList (map snd rs) | _ \<Rightarrow> datasets))))"

text \<open>\<open>m[ds["org_id"]] = ds["arn"]\<close> for each result, in order, starting from \<open>m\<close>. The
  key is the identifier that \<open>+ IMPORT_SUFFIX\<close> accepted, hence a string.\<close>

fun record_ids :: "json list \<Rightarrow> dict \<Rightarrow> exn + dict" where
  "record_ids [] m = Inr m"
| "record_ids (ds # rest) m =
     bindE (subscript ds ''org_id'') (\<lambda>org_id.
     bindE (subscript ds ''arn'') (\<lambda>arn.
       case org_id of
         JStr k \<Rightarrow> record_ids rest (AList.update k arn m)
       | _ \<Rightarrow> Inl TypeError))"

subsection \<open>Analysis\<close>

definition rewrite_declaration :: "dict \<Rightarrow> json \<Rightarrow> exn + json" where
  "rewrite_declaration dataset_id_map ds =
     bindE (subscript ds ''DataSetArn'') (\<lambda>arn.
     bindE (get_id_from_arn_dyn arn) (\<lambda>ident.
     bindE (lookup dataset_id_map ident) (\<lambda>new_arn.
     set_item ds ''DataSetArn'' new_arn)))"

definition prepare_analysis_definition ::
  "json \<Rightarrow> dict \<Rightarrow> json \<Rightarrow> exn + dict \<times> json" where
  "prepare_analysis_definition account_id dataset_id_map analysis =
     bindE (subscript analysis ''Name'') (\<lambda>n.
     bindE (str_add n ''-imported'') (\<lambda>target_analysis_name.
     bindE (subscript analysis ''AnalysisId'') (\<lambda>i.
     bindE (str_add i ''-imported'') (\<lambda>target_analysis_id.
     bindE (py_items analysis) (\<lambda>items.
     let definition = AList.update ''AwsAccountId'' account_id
                        (AList.update ''AnalysisId'' target_analysis_id
                          (AList.update ''Name'' target_analysis_name items)) in
     bindE (subscript (JObj definition) ''Definition'') (\<lambda>d.
     bindE (py_get d ''DataSetIdentifierDeclarations'') (\<lambda>decls.
     bindE (py_iter decls) (\<lambda>elems.
     bindE (mapE (rewrite_declaration dataset_id_map) elems) (\<lambda>elems'.
     let decls' = (case decls of JList _ \<Rightarrow> JList elems' | _ \<Rightarrow> decls) in
     bindE (set_item d ''DataSetIdentifierDeclarations'' decls') (\<lambda>d'.
     Inr (AList.update ''Definition'' d' definition,
          JObj (AList.update ''Definition'' d' items))))))))))))"

definition import_analysis :: "'s qs_client \<Rightarrow> dict \<Rightarrow> (json, 's) io" where
  "import_analysis qs analysis =
     bindS (lift (subscript (JObj analysis) ''Name'')) (\<lambda>_.
     bindS (create_or_update_asset analysis (create_analysis qs) (update_analysis qs))
       (\<lambda>response.
     lift (bindE (subscript (JObj analysis) ''Name'') (\<lambda>name.
           bindE (subscript response ''Arn'') (\<lambda>arn.
           bindE (subscript response ''AnalysisId'') (\<lambda>ident.
           Inr (JObj [(''name'', name), (''arn'', arn), (''id'', ident)])))))))"

subsection \<open>Dashboard\<close>

text \<open>
  \<open>int(s)\<close> on a string: surrounding whitespace, one sign, then decimal digits with
  single underscores between them. A character of a \<open>string\<close> is a code point below 256.
  Among these the whitespace that \<open>int\<close> strips is the tab to carriage return range, the
  four separators \<open>0x1C\<close> to \<open>0x1F\<close>, the space, next line (\<open>0x85\<close>) and the no-break
  space (\<open>0xA0\<close>); the decimal digits are \<open>0\<close> to \<open>9\<close>. Code points from 256 on and the
  interpreter's limit on the number of digits are outside the model.
\<close>

definition is_space :: "char \<Rightarrow> bool" where
  "is_space c = (c \<in> {CHR '' '', CHR 0x09, CHR 0x0A, CHR 0x0B, CHR 0x0C, CHR 0x0D,
                      CHR 0x1C, CHR 0x1D, CHR 0x1E, CHR 0x1F, CHR 0x85, CHR 0xA0})"

definition digit_of :: "char \<Rightarrow> nat option" where
  "digit_of c =
     (let n = (of_char c :: nat) in if 48 \<le> n \<and> n \<le> 57 then Some (n - 48) else None)"

fun parse_digits :: "nat \<Rightarrow> string \<Rightarrow> nat option" where
  "parse_digits acc [] = Some acc"
| "parse_digits acc [c] =
     (case digit_of c of Some d \<Rightarrow> Some (10 * acc + d) | None \<Rightarrow> None)"
| "parse_digits acc (c # c' # cs) =
     (if c = CHR ''_'' then
        (case digit_of c' of Some d \<Rightarrow> parse_digits (10 * acc + d) cs | None \<Rightarrow> None)
      else
        (case digit_of c of Some d \<Rightarrow> parse_digits (10 * acc + d) (c' # cs) | None \<Rightarrow> None))"

definition parse_unsigned :: "string \<Rightarrow> nat option" where
  "parse_unsigned s =
     (case s of
        [] \<Rightarrow> None
      | c # cs \<Rightarrow> (case digit_of c of Some d \<Rightarrow> parse_digits d cs | None \<Rightarrow> None))"

definition py_int :: "string \<Rightarrow> exn + int" where
  "py_int s =
     (let t = rev (dropWhile is_space (rev (dropWhile is_space s)));
          parsed = (case t of
                      [] \<Rightarrow> None
                    | c # cs \<Rightarrow>
                        if c = CHR ''-'' then map_option (\<lambda>n. - int n) (parse_unsigned cs)
                        else if c = CHR ''+'' then map_option int (parse_unsigned cs)
                        else map_option int (parse_unsigned t))
      in case parsed of None \<Rightarrow> Inl (ValueError (InvalidLiteral s)) | Some n \<Rightarrow> Inr n)"

definition get_dashboard_version :: "string \<Rightarrow> exn + int" where
  "get_dashboard_version version_arn = py_int (last (split_on CHR ''/'' version_arn))"

fun get_dashboard_version_dyn :: "json \<Rightarrow> exn + int" where
  "get_dashboard_version_dyn (JStr version_arn) = get_dashboard_version version_arn"
| "get_dashboard_version_dyn _ = Inl AttributeError"

definition availability :: "string \<Rightarrow> json" where
  "availability status = JObj [(''AvailabilityStatus'', JStr status)]"

definition DashboardPublishOptions :: json where
  "DashboardPublishOptions = JObj
     [(''AdHocFilteringOption'', availability ''DISABLED''),
      (''ExportToCSVOption'', availability ''ENABLED''),
      (''SheetControlsOption'', JObj [(''VisibilityState'', JStr ''COLLAPSED'')]),
      (''SheetLayoutElementMaximizationOption'', availability ''ENABLED''),
      (''VisualMenuOption'', availability ''ENABLED''),
      (''VisualAxisSortOption'', availability ''ENABLED''),
      (''ExportWithHiddenFieldsOption'', availability ''DISABLED''),
      (''DataPointDrillUpDownOption'', availability ''ENABLED''),
      (''DataPointMenuLabelOption'', availability ''ENABLED''),
      (''DataPointTooltipOption'', availability ''ENABLED'')]"

definition dashboard_permissions :: json where
  "dashboard_permissions = JList
     [JObj [(''Principal'',
             JStr ''arn:aws:quicksight:us-east-1:157367673944:group/default/Reporting_management''),
            (''Actions'', JList [JStr ''quicksight:DescribeDashboard'',
                                 JStr ''quicksight:QueryDashboard'',
                                 JStr ''quicksight:ListDashboardVersions''])],
      JObj [(''Principal'',
             JStr ''arn:aws:quicksight:us-east-1:157367673944:user/default/dmitrii.kharitonov+dev@vindow.com''),
            (''Actions'', JList [JStr ''quicksight:DescribeDashboard'',
                                 JStr ''quicksight:ListDashboardVersions'',
                                 JStr ''quicksight:UpdateDashboardPermissions'',
                                 JStr ''quicksight:QueryDashboard'',
                                 JStr ''quicksight:UpdateDashboard'',
                                 JStr ''quicksight:DeleteDashboard'',
                                 JStr ''quicksight:UpdateDashboardPublishedVersion'',
                                 JStr ''quicksight:DescribeDashboardPermissions''])]]"

text \<open>\<open>analysis.copy()\<close>: a dictionary gives a new dictionary; a list has \<open>copy\<close> too, and
  the \<open>pop\<close> of a string that follows raises \<open>TypeError\<close> on it.\<close>

definition prepare_dashboard_definition :: "json \<Rightarrow> json \<Rightarrow> exn + dict" where
  "prepare_dashboard_definition account_id analysis =
     (case analysis of
        JObj items \<Rightarrow>
          bindE (dict_pop ''AnalysisId'' items) (\<lambda>popped.
          bindE (str_add (fst popped) ''_dashboard'') (\<lambda>ident.
          bindE (dict_pop ''Name'' (snd popped)) (\<lambda>popped'.
          bindE (str_add (fst popped') ''_dashboard'') (\<lambda>name.
          Inr (AList.update ''Permissions'' dashboard_permissions
                (AList.update ''DashboardPublishOptions'' DashboardPublishOptions
                  (AList.update ''DashboardId'' ident
                    (AList.update ''Name'' name
                      (AList.update ''AwsAccountId'' account_id (snd popped'))))))))))
      | JList _ \<Rightarrow> Inl TypeError
      | _ \<Rightarrow> Inl AttributeError)"

text \<open>The \<open>print\<close> after the publish call formats \<open>dashboard['DashboardId']\<close> and then
  \<open>publish_response['Status']\<close>: the first places where an argument without an identifier
  and a response without a status raise. The pops of \<open>create_or_update_asset\<close> on the
  argument remove \<open>Permissions\<close> and \<open>Type\<close> only, so the identifier is read from the
  argument as it was passed.\<close>

definition import_dashboard :: "json \<Rightarrow> 's qs_client \<Rightarrow> dict \<Rightarrow> (json, 's) io" where
  "import_dashboard account_id qs dashboard =
     bindS (create_or_update_asset dashboard (create_dashboard qs) (update_dashboard qs))
       (\<lambda>response.
     bindS (lift (subscript response ''VersionArn'')) (\<lambda>version_arn.
     bindS (lift (get_dashboard_version_dyn version_arn)) (\<lambda>version.
     bindS (lift (subscript response ''DashboardId'')) (\<lambda>dashboard_id.
     bindS (update_dashboard_published_version qs
              [(''AwsAccountId'', account_id), (''DashboardId'', dashboard_id),
               (''VersionNumber'', JInt version)]) (\<lambda>publish_response.
     lift (bindE (subscript (JObj dashboard) ''DashboardId'') (\<lambda>_.
           bindE (subscript publish_response ''Status'') (\<lambda>status.
           bindE (subscript response ''Arn'') (\<lambda>arn.
           Inr (JObj [(''id'', dashboard_id), (''arn'', arn), (''version'', JInt version),
                      (''publish_status'', status)]))))))))))"

subsection \<open>The import\<close>

text \<open>
  Three sections are tested for before anything is created: \<open>datasources\<close>,
  \<open>analysis_datasets\<close> and \<open>analysis\<close>. \<open>security_datasets\<close> is read by subscript after
  the data sources have been imported.
\<close>

definition import_dump :: "json \<Rightarrow> 's qs_client \<Rightarrow> json \<Rightarrow> (json, 's) io" where
  "import_dump account_id qs assets_dump =
     bindS (lift (py_in ''datasources'' assets_dump)) (\<lambda>has_datasources.
     if \<not> has_datasources then lift (Inl (ValueError (NotInDump ''datasources''))) else
     bindS (lift (py_in ''analysis_datasets'' assets_dump)) (\<lambda>has_datasets.
     if \<not> has_datasets then lift (Inl (ValueError (NotInDump ''datasets''))) else
     bindS (lift (py_in ''analysis'' assets_dump)) (\<lambda>has_analysis.
     if \<not> has_analysis then lift (Inl (ValueError (NotInDump ''analysis''))) else
     bindS (lift (subscript assets_dump ''datasources'')) (\<lambda>dump_datasources.
     bindS (import_datasources account_id qs dump_datasources) (\<lambda>datasources.
     bindS (lift (record_ids datasources [])) (\<lambda>datasource_id_map.
     bindS (lift (subscript assets_dump ''security_datasets'')) (\<lambda>dump_security.
     bindS (import_datasets account_id qs dump_security datasource_id_map [])
       (\<lambda>security.
     bindS (lift (record_ids (fst security) [])) (\<lambda>dataset_id_map.
     bindS (lift (subscript assets_dump ''analysis_datasets'')) (\<lambda>dump_analysis_datasets.
     bindS (import_datasets account_id qs dump_analysis_datasets datasource_id_map
              dataset_id_map) (\<lambda>analysis_ds.
     bindS (lift (record_ids (fst analysis_ds) dataset_id_map)) (\<lambda>dataset_id_map.
     bindS (lift (subscript assets_dump ''analysis'')) (\<lambda>dump_analysis.
     bindS (lift (prepare_analysis_definition account_id dataset_id_map dump_analysis))
       (\<lambda>prepared.
     bindS (import_analysis qs (fst prepared)) (\<lambda>analysis.
     bindS (lift (prepare_dashboard_definition account_id (snd prepared)))
       (\<lambda>dashboard_definition.
     bindS (import_dashboard account_id qs dashboard_definition) (\<lambda>dashboard.
     bindS (lift (py_items assets_dump)) (\<lambda>items.
     ret (JObj [(''target_account'', account_id),
                (''assets_dump'',
                   JObj (AList.update ''analysis'' (snd prepared)
                          (AList.update ''analysis_datasets'' (snd analysis_ds)
                            (AList.update ''security_datasets'' (snd security) items)))),
                (''datasources'', JList datasources),
                (''security_datasets'', JList (fst security)),
                (''analysis_datasets'', JList (fst analysis_ds)),
                (''analysis'', analysis),
                (''dashboard'', dashboard)])))))))))))))))))))"

section \<open>A recording client\<close>

text \<open>
  To state which provider calls a run makes, a client is wrapped so that every call is
  appended to a log with the operation's name, its keyword arguments and its outcome, as
  a mock object records its calls. The wrapped client behaves as the client it wraps.
\<close>

type_synonym call = "string \<times> dict \<times> (exn + json)"

definition recorded ::
  "string \<Rightarrow> (dict \<Rightarrow> 's \<Rightarrow> (exn + json) \<times> 's) \<Rightarrow> dict \<Rightarrow> 's \<times> call list
     \<Rightarrow> (exn + json) \<times> 's \<times> call list" where
  "recorded name fn params w =
     (case fn params (fst w) of (r, s') \<Rightarrow> (r, (s', snd w @ [(name, params, r)])))"

definition recording :: "'s qs_client \<Rightarrow> ('s \<times> call list) qs_client" where
  "recording qs = \<lparr>
     describe_analysis_definition =
       recorded ''describe_analysis_definition'' (describe_analysis_definition qs),
     describe_analysis_permissions =
       recorded ''describe_analysis_permissions'' (describe_analysis_permissions qs),
     describe_data_set = recorded ''describe_data_set'' (describe_data_set qs),
     describe_data_set_permissions =
       recorded ''describe_data_set_permissions'' (describe_data_set_permissions qs),
     describe_data_source = recorded ''describe_data_source'' (describe_data_source qs),
     describe_data_source_permissions =
       recorded ''describe_data_source_permissions'' (describe_data_source_permissions qs),
     create_data_source = recorded ''create_data_source'' (create_data_source qs),
     update_data_source = recorded ''update_data_source'' (update_data_source qs),
     create_data_set = recorded ''create_data_set'' (create_data_set qs),
     update_data_set = recorded ''update_data_set'' (update_data_set qs),
     create_analysis = recorded ''create_analysis'' (create_analysis qs),
     update_analysis = recorded ''update_analysis'' (update_analysis qs),
     create_dashboard = recorded ''create_dashboard'' (create_dashboard qs),
     update_dashboard = recorded ''update_dashboard'' (update_dashboard qs),
     update_dashboard_published_version =
       recorded ''update_dashboard_published_version''
         (update_dashboard_published_version qs) \<rparr>"


section \<open>Shapes and scenarios\<close>

subsection \<open>A provider that reports that the object exists\<close>

definition exists_response :: json where
  "exists_response = JObj [(''Error'', JObj [(''Code'', JStr ''ResourceExistsException'')])]"

definition raise_exists :: "dict \<Rightarrow> unit \<Rightarrow> (exn + json) \<times> unit" where
  "raise_exists params s = (Inl (ClientError exists_response), s)"

definition respond_ok :: "dict \<Rightarrow> unit \<Rightarrow> (exn + json) \<times> unit" where
  "respond_ok params s = (Inr (JObj [(''Status'', JInt 200)]), s)"

definition denied_response :: json where
  "denied_response = JObj [(''Error'', JObj [(''Code'', JStr ''AccessDeniedException'')])]"

definition raise_denied :: "dict \<Rightarrow> unit \<Rightarrow> (exn + json) \<times> unit" where
  "raise_denied params s = (Inl (ClientError denied_response), s)"

subsection \<open>A search that returns given matches\<close>

definition search_returning :: "json list \<Rightarrow> dict \<Rightarrow> unit \<Rightarrow> (exn + json) \<times> unit" where
  "search_returning matches params s =
     (Inr (JObj [(''Status'', JInt 200), (''Assets'', JList matches)]), s)"

subsection \<open>Shape of a dataset record\<close>

text \<open>
  The types a dataset record has in a dump that the export wrote from the provider's
  descriptions: a dictionary; its name a string; its physical table map \<open>None\<close> or a
  dictionary of dictionaries, in which a \<open>RelationalTable\<close> is a dictionary and a
  \<open>DataSourceArn\<close> a string; its row-level-security reference \<open>None\<close> or a dictionary
  whose \<open>Arn\<close> is a string. A key may be missing. On such records every failure of
  \<open>prepare_dataset_definition\<close> is a failed lookup and none a type error.
\<close>

fun is_str :: "json \<Rightarrow> bool" where
  "is_str (JStr s) = True"
| "is_str _ = False"

definition arn_typed :: "string \<Rightarrow> json \<Rightarrow> bool" where
  "arn_typed key v =
     (case v of
        JObj r \<Rightarrow> (case map_of r key of None \<Rightarrow> True | Some a \<Rightarrow> is_str a)
      | _ \<Rightarrow> False)"

definition table_typed :: "json \<Rightarrow> bool" where
  "table_typed t =
     (case t of
        JObj e \<Rightarrow> (case map_of e ''RelationalTable'' of
                     None \<Rightarrow> True
                   | Some rel \<Rightarrow> arn_typed ''DataSourceArn'' rel)
      | _ \<Rightarrow> False)"

definition dataset_typed :: "json \<Rightarrow> bool" where
  "dataset_typed dataset =
     (case dataset of
        JObj items \<Rightarrow>
          distinct (map fst items)
          \<and> (case map_of items ''Name'' of None \<Rightarrow> True | Some n \<Rightarrow> is_str n)
          \<and> (case map_of items ''PhysicalTableMap'' of
                None \<Rightarrow> True
              | Some JNull \<Rightarrow> True
              | Some (JObj tables) \<Rightarrow> list_all (\<lambda>kt. table_typed (snd kt)) tables
              | Some _ \<Rightarrow> False)
          \<and> (case map_of items ''RowLevelPermissionDataSet'' of
                None \<Rightarrow> True
              | Some JNull \<Rightarrow> True
              | Some rls \<Rightarrow> arn_typed ''Arn'' rls)
      | _ \<Rightarrow> False)"

subsection \<open>A source account and a target account\<close>

text \<open>
  The scenario of the end-to-end properties. In the source account the analysis \<open>an1\<close>
  declares the datasets \<open>ds1\<close> and \<open>ds2\<close>; \<open>ds1\<close> has a row-level-security reference to
  the dataset \<open>rls1\<close>; the three datasets read the data source \<open>db\<close>. The target account
  accepts every create call. Neither account has a state that the calls change.
\<close>

definition source_arn :: "string \<Rightarrow> string \<Rightarrow> json" where
  "source_arn kind ident = JStr (''arn:aws:quicksight:us-east-1:111122223333:'' @ kind @ ''/'' @ ident)"

definition target_arn :: "string \<Rightarrow> string \<Rightarrow> json" where
  "target_arn kind ident = JStr (''arn:aws:quicksight:eu-west-1:999900001111:'' @ kind @ ''/'' @ ident)"

definition relational_table :: "json \<Rightarrow> json" where
  "relational_table arn =
     JObj [(''RelationalTable'', JObj [(''DataSourceArn'', arn), (''Name'', JStr ''orders'')])]"

definition scenario_dataset :: "string \<Rightarrow> dict \<Rightarrow> json" where
  "scenario_dataset ident extra =
     JObj ([(''DataSetId'', JStr ident), (''Name'', JStr ident),
            (''PhysicalTableMap'', JObj [(''t1'', relational_table (source_arn ''datasource'' ''db''))]),
            (''LogicalTableMap'', JObj []), (''OutputColumns'', JList []),
            (''ImportMode'', JStr ''SPICE'')] @ extra)"

definition scenario_analysis :: json where
  "scenario_analysis =
     JObj [(''AnalysisId'', JStr ''an1''), (''Name'', JStr ''Sales''),
           (''Definition'', JObj [(''DataSetIdentifierDeclarations'',
              JList [JObj [(''Identifier'', JStr ''a''),
                           (''DataSetArn'', source_arn ''dataset'' ''ds1'')],
                     JObj [(''Identifier'', JStr ''b''),
                           (''DataSetArn'', source_arn ''dataset'' ''ds2'')]])])]"

definition scenario_data_source :: json where
  "scenario_data_source =
     JObj [(''DataSourceId'', JStr ''db''), (''Name'', JStr ''Warehouse''),
           (''Type'', JStr ''POSTGRESQL''), (''DataSourceParameters'', JObj [])]"

definition not_found :: "exn + json" where
  "not_found = Inl (ClientError (JObj [(''Error'',
                  JObj [(''Code'', JStr ''ResourceNotFoundException'')])]))"

definition described :: "string \<Rightarrow> json \<Rightarrow> exn + json" where
  "described field v = Inr (JObj [(''Status'', JInt 200), (field, v)])"

definition scenario_describe_analysis_definition ::
  "dict \<Rightarrow> unit \<Rightarrow> (exn + json) \<times> unit" where
  "scenario_describe_analysis_definition params s =
     (if map_of params ''AnalysisId'' = Some (JStr ''an1'')
      then (case scenario_analysis of
              JObj a \<Rightarrow> Inr (JObj ((''Status'', JInt 200) # a)) | _ \<Rightarrow> not_found)
      else not_found, s)"

definition scenario_describe_data_set :: "dict \<Rightarrow> unit \<Rightarrow> (exn + json) \<times> unit" where
  "scenario_describe_data_set params s =
     (if map_of params ''DataSetId'' = Some (JStr ''ds1'') then
        described ''DataSet'' (scenario_dataset ''ds1''
          [(''RowLevelPermissionDataSet'',
            JObj [(''Arn'', source_arn ''dataset'' ''rls1''),
                  (''PermissionPolicy'', JStr ''GRANT_ACCESS'')])])
      else if map_of params ''DataSetId'' = Some (JStr ''ds2'') then
        described ''DataSet'' (scenario_dataset ''ds2'' [])
      else if map_of params ''DataSetId'' = Some (JStr ''rls1'') then
        described ''DataSet'' (scenario_dataset ''rls1'' [])
      else not_found, s)"

definition scenario_describe_data_source :: "dict \<Rightarrow> unit \<Rightarrow> (exn + json) \<times> unit" where
  "scenario_describe_data_source params s =
     (if map_of params ''DataSourceId'' = Some (JStr ''db'')
      then described ''DataSource'' scenario_data_source
      else not_found, s)"

definition scenario_permissions :: "dict \<Rightarrow> unit \<Rightarrow> (exn + json) \<times> unit" where
  "scenario_permissions params s = (described ''Permissions'' (JList []), s)"

definition created :: "string \<Rightarrow> string \<Rightarrow> dict \<Rightarrow> unit \<Rightarrow> (exn + json) \<times> unit" where
  "created kind id_key params s =
     (case map_of params id_key of
        Some (JStr ident) \<Rightarrow>
          Inr (JObj [(''Status'', JInt 201), (''Arn'', target_arn kind ident),
                     (id_key, JStr ident),
                     (''VersionArn'', target_arn kind (ident @ ''/version/1''))])
      | _ \<Rightarrow> Inl (OtherError ''ParamValidationError''), s)"

definition scenario_client :: "unit qs_client" where
  "scenario_client = \<lparr>
     describe_analysis_definition = scenario_describe_analysis_definition,
     describe_analysis_permissions = scenario_permissions,
     describe_data_set = scenario_describe_data_set,
     describe_data_set_permissions = scenario_permissions,
     describe_data_source = scenario_describe_data_source,
     describe_data_source_permissions = scenario_permissions,
     create_data_source = created ''datasource'' ''DataSourceId'',
     update_data_source = created ''datasource'' ''DataSourceId'',
     create_data_set = created ''dataset'' ''DataSetId'',
     update_data_set = created ''dataset'' ''DataSetId'',
     create_analysis = created ''analysis'' ''AnalysisId'',
     update_analysis = created ''analysis'' ''AnalysisId'',
     create_dashboard = created ''dashboard'' ''DashboardId'',
     update_dashboard = created ''dashboard'' ''DashboardId'',
     update_dashboard_published_version = respond_ok \<rparr>"

text \<open>Dump bundles for the target account: the data source record as the export writes
  it, with and without the section \<open>security_datasets\<close>.\<close>

definition dumped_data_source :: json where
  "dumped_data_source =
     JObj [(''DataSourceId'', JStr ''db''), (''Name'', JStr ''Warehouse''),
           (''Type'', JStr ''POSTGRESQL''), (''DataSourceParameters'', JObj []),
           (''Credentials'', JNull), (''Permissions'', JList []),
           (''VpcConnectionProperties'', JNull), (''SslProperties'', JNull),
           (''ErrorInfo'', JNull)]"

definition dumped_dataset :: json where
  "dumped_dataset =
     scenario_dataset ''ds2''
       [(''Permissions'', JList []), (''RowLevelPermissionDataSet'', JNull),
        (''DataSetUsageConfiguration'', JNull)]"

definition dumped_analysis :: json where
  "dumped_analysis =
     JObj [(''AnalysisId'', JStr ''an1''), (''Name'', JStr ''Sales''),
           (''Definition'', JObj [(''DataSetIdentifierDeclarations'',
              JList [JObj [(''Identifier'', JStr ''b''),
                           (''DataSetArn'', source_arn ''dataset'' ''ds2'')]])]),
           (''Permissions'', JList [])]"


definition dump_without_security :: json where
  "dump_without_security =
     JObj [(''analysis'', dumped_analysis), (''analysis_datasets'', JList [dumped_dataset]),
           (''datasources'', JList [dumped_data_source])]"

text \<open>A dataset with a custom-SQL physical table beside a relational one, a dataset
  with a row-level-security reference, and the remap tables after the import of the
  data source \<open>db\<close> alone.\<close>

definition dataset_custom_sql :: json where
  "dataset_custom_sql =
     JObj [(''DataSetId'', JStr ''ds3''), (''Name'', JStr ''ds3''),
           (''PhysicalTableMap'',
              JObj [(''t1'', relational_table (source_arn ''datasource'' ''db'')),
                    (''t2'', JObj [(''CustomSql'',
                       JObj [(''DataSourceArn'', source_arn ''datasource'' ''db''),
                             (''SqlQuery'', JStr ''select 1'')])])])]"

definition dataset_with_rls :: json where
  "dataset_with_rls =
     scenario_dataset ''ds1''
       [(''RowLevelPermissionDataSet'', JObj [(''Arn'', source_arn ''dataset'' ''rls1'')])]"

definition datasource_remap :: dict where
  "datasource_remap = [(''db'', target_arn ''datasource'' ''db-imported'')]"

subsection \<open>Call logs\<close>

text \<open>A computation on a recording client \<open>only_calls names\<close> when, from every world,
  what it appends to the log are calls of operations in \<open>names\<close>.\<close>

definition only_calls ::
  "string set \<Rightarrow> ('s \<times> call list \<Rightarrow> (exn + 'a) \<times> 's \<times> call list) \<Rightarrow> bool" where
  "only_calls names m =
     (\<forall>w. \<exists>new. snd (snd (m w)) = snd w @ new \<and> fst ` set new \<subseteq> names)"



section \<open>Properties\<close>

subsection \<open>Sequencing\<close>

lemma bindE_Inl [simp]: "bindE (Inl e) f = Inl e"
  by (simp add: bindE_def)

lemma bindE_Inr [simp]: "bindE (Inr a) f = f a"
  by (simp add: bindE_def)

lemma bindE_eq_Inr:
  "bindE m f = Inr b \<longleftrightarrow> (\<exists>a. m = Inr a \<and> f a = Inr b)"
  by (cases m) auto

lemma bindS_lift_Inr [simp]: "bindS (lift (Inr a)) f s = f a s"
  by (simp add: bindS_def lift_def)

lemma bindS_lift_Inl [simp]: "bindS (lift (Inl e)) f s = (Inl e, s)"
  by (simp add: bindS_def lift_def)

lemma bindS_ret [simp]: "bindS (ret a) f s = f a s"
  by (simp add: bindS_def ret_def)

lemma bindS_Inr: "m s = (Inr a, s1) \<Longrightarrow> bindS m f s = f a s1"
  by (simp add: bindS_def)

lemma bindS_Inl: "m s = (Inl e, s1) \<Longrightarrow> bindS m f s = (Inl e, s1)"
  by (simp add: bindS_def)

lemma bindS_eq_Inr:
  "bindS m f s = (Inr b, s') \<longleftrightarrow> (\<exists>a s1. m s = (Inr a, s1) \<and> f a s1 = (Inr b, s'))"
  by (cases "m s"; cases "fst (m s)") (auto simp: bindS_def)

lemma lift_eq [simp]: "lift m s = (m, s)"
  by (simp add: lift_def)

lemma ret_eq [simp]: "ret a s = (Inr a, s)"
  by (simp add: ret_def)

subsection \<open>Splitting\<close>

lemma split_on_not_Nil: "split_on c s \<noteq> []"
  by (induction s) (auto simp: Let_def)

lemma split_on_no_sep: "c \<notin> set s \<Longrightarrow> split_on c s = [s]"
  by (induction s) (auto simp: Let_def)

lemma split_on_append:
  "c \<notin> set a \<Longrightarrow> split_on c (a @ c # b) = a # split_on c b"
  by (induction a) (auto simp: Let_def)

lemma length_split_on:
  "length (split_on c s) = Suc (length (filter (\<lambda>x. x = c) s))"
proof (induction s)
  case Nil
  show ?case by simp
next
  case (Cons x s)
  have "split_on c s \<noteq> []" by (rule split_on_not_Nil)
  then have "Suc (length (tl (split_on c s))) = length (split_on c s)"
    by (cases "split_on c s") auto
  with Cons show ?case by (simp add: Let_def)
qed

lemma last_split_on_append:
  "last (split_on c (a @ c # b)) = last (split_on c b)"
proof (induction a)
  case Nil
  show ?case by (simp add: split_on_not_Nil)
next
  case (Cons x a)
  let ?r = "split_on c (a @ c # b)"
  have "2 \<le> length ?r" by (simp add: length_split_on)
  then obtain p q qs where eq: "?r = p # q # qs"
    by (cases ?r; cases "tl ?r") auto
  show ?case using Cons eq by (auto simp: Let_def)
qed

lemma get_id_from_arn_after_final_slash:
  "CHR ''/'' \<notin> set suf \<Longrightarrow> get_id_from_arn (pre @ CHR ''/'' # suf) = suf"
  by (simp add: get_id_from_arn_def last_split_on_append split_on_no_sep)

lemma split_on_five:
  assumes "c \<notin> set s0" "c \<notin> set s1" "c \<notin> set s2" "c \<notin> set s3" "c \<notin> set s4"
  shows "split_on c (s0 @ c # s1 @ c # s2 @ c # s3 @ c # s4 @ c # rest)
         = s0 # s1 # s2 # s3 # s4 # split_on c rest"
  using assms by (simp add: split_on_append)

subsection \<open>Locators\<close>

text \<open>
  C7. A locator \<open>scheme:partition:service:region:account:kind/identifier\<close> has five
  colon-free segments before the resource part. On every such string
  \<open>get_account_id_from_arn\<close> returns the fifth segment, the account, and
  \<open>get_id_from_arn\<close> returns what follows the final slash: whenever the string is cut at
  a slash with no slash after it, the result is the part after the cut, and it is the
  identifier itself when the identifier has no slash.
\<close>

theorem arn_extraction:
  assumes "CHR '':'' \<notin> set scheme" and "CHR '':'' \<notin> set part"
    and "CHR '':'' \<notin> set service" and "CHR '':'' \<notin> set region"
    and "CHR '':'' \<notin> set account"
    and "arn = scheme @ CHR '':'' # part @ CHR '':'' # service @ CHR '':'' # region
               @ CHR '':'' # account @ CHR '':'' # kind @ CHR ''/'' # identifier"
  shows "get_account_id_from_arn arn = Inr account
    \<and> (\<forall>pre suf. arn = pre @ CHR ''/'' # suf \<and> CHR ''/'' \<notin> set suf
            \<longrightarrow> get_id_from_arn arn = suf)
    \<and> (CHR ''/'' \<notin> set identifier \<longrightarrow> get_id_from_arn arn = identifier)"
proof -
  have parts: "split_on CHR '':'' arn
      = scheme # part # service # region # account
          # split_on CHR '':'' (kind @ CHR ''/'' # identifier)"
    unfolding assms(6) using assms(1-5) by (rule split_on_five)
  have a: "get_account_id_from_arn arn = Inr account"
    by (simp add: get_account_id_from_arn_def parts)
  have b: "\<forall>pre suf. arn = pre @ CHR ''/'' # suf \<and> CHR ''/'' \<notin> set suf
            \<longrightarrow> get_id_from_arn arn = suf"
    by (auto simp: get_id_from_arn_after_final_slash)
  have "arn = (scheme @ CHR '':'' # part @ CHR '':'' # service @ CHR '':'' # region
               @ CHR '':'' # account @ CHR '':'' # kind) @ CHR ''/'' # identifier"
    by (simp add: assms(6))
  then have c: "CHR ''/'' \<notin> set identifier \<longrightarrow> get_id_from_arn arn = identifier"
    using get_id_from_arn_after_final_slash by blast
  from a b c show ?thesis by blast
qed

theorem arn_extraction_witness:
  "get_account_id_from_arn ''arn:aws:quicksight:region:account:asset/123'' = Inr ''account''
   \<and> get_id_from_arn ''arn:aws:quicksight:region:account:asset/123'' = ''123''"
proof -
  have form: "''arn:aws:quicksight:region:account:asset/123''
      = ''arn'' @ CHR '':'' # ''aws'' @ CHR '':'' # ''quicksight'' @ CHR '':'' # ''region''
          @ CHR '':'' # ''account'' @ CHR '':'' # ''asset'' @ CHR ''/'' # ''123''"
    by simp
  have c: "CHR '':'' \<notin> set ''arn''" "CHR '':'' \<notin> set ''aws''"
    "CHR '':'' \<notin> set ''quicksight''" "CHR '':'' \<notin> set ''region''"
    "CHR '':'' \<notin> set ''account''"
    by simp_all
  have s: "CHR ''/'' \<notin> set ''123''" by simp
  from arn_extraction[OF c form] s show ?thesis by blast
qed


subsection \<open>Row-level-security references\<close>

lemma comprehension_none:
  "\<forall>x \<in> set xs. cond x = Inr False \<Longrightarrow> comprehension cond f xs = Inr []"
  by (induction xs) auto

text \<open>
  C6. When every entry of the list is a dictionary without the key
  \<open>RowLevelPermissionDataSet\<close>, \<open>get_rls_dataset_ids\<close> returns the empty set; it does
  not raise.
\<close>

theorem get_rls_dataset_ids_empty:
  assumes "\<forall>ds \<in> set dataset_definitions.
             \<exists>d. ds = JObj d \<and> ''RowLevelPermissionDataSet'' \<notin> set (map fst d)"
  shows "get_rls_dataset_ids dataset_definitions = Inr []"
proof -
  have "\<forall>ds \<in> set dataset_definitions. py_in ''RowLevelPermissionDataSet'' ds = Inr False"
    using assms by auto
  then have "comprehension (py_in ''RowLevelPermissionDataSet'')
               (\<lambda>ds. py_get ds ''RowLevelPermissionDataSet'') dataset_definitions = Inr []"
    by (rule comprehension_none)
  then show ?thesis by (simp add: get_rls_dataset_ids_def)
qed

theorem get_rls_dataset_ids_empty_witness:
  "get_rls_dataset_ids
     [JObj [(''DataSetId'', JStr ''sales''), (''Name'', JStr ''Sales'')], JObj []] = Inr []"
  by (rule get_rls_dataset_ids_empty) simp

subsection \<open>Credentials\<close>

lemma map_of_present:
  "k \<in> set (map fst items) \<Longrightarrow> \<exists>v. map_of items k = Some v"
  by (cases "map_of items k") (auto simp: map_of_eq_None_iff)

lemma dump_data_source_shape:
  assumes "dump_data_source definition permissions = Inr r"
  shows "\<exists>i n t ps v s e. r = JObj [(''DataSourceId'', i), (''Name'', n), (''Type'', t),
                (''DataSourceParameters'', ps), (''Credentials'', JNull),
                (''Permissions'', permissions), (''VpcConnectionProperties'', v),
                (''SslProperties'', s), (''ErrorInfo'', e)]"
  using assms unfolding dump_data_source_def bindE_eq_Inr by blast

text \<open>
  C8. Whatever the definition and the permission list are, a record that
  \<open>dump_data_source\<close> returns has \<open>Credentials\<close> equal to \<open>None\<close>; and it does return a
  record for every definition that has the four fields it reads by subscript.
\<close>

theorem dump_data_source_credentials:
  "(\<forall>r. dump_data_source definition permissions = Inr r
        \<longrightarrow> subscript r ''Credentials'' = Inr JNull)
   \<and> (\<forall>items. definition = JObj items
        \<and> {''DataSourceId'', ''Name'', ''Type'', ''DataSourceParameters''} \<subseteq> set (map fst items)
        \<longrightarrow> (\<exists>r. dump_data_source definition permissions = Inr r))"
proof (intro conjI allI impI)
  fix r
  assume "dump_data_source definition permissions = Inr r"
  then obtain i n t ps v s e where
    "r = JObj [(''DataSourceId'', i), (''Name'', n), (''Type'', t),
                (''DataSourceParameters'', ps), (''Credentials'', JNull),
                (''Permissions'', permissions), (''VpcConnectionProperties'', v),
                (''SslProperties'', s), (''ErrorInfo'', e)]"
    using dump_data_source_shape by blast
  then show "subscript r ''Credentials'' = Inr JNull"
    by simp
next
  fix items
  assume a: "definition = JObj items
    \<and> {''DataSourceId'', ''Name'', ''Type'', ''DataSourceParameters''} \<subseteq> set (map fst items)"
  then obtain v1 v2 v3 v4 where
    "map_of items ''DataSourceId'' = Some v1" "map_of items ''Name'' = Some v2"
    "map_of items ''Type'' = Some v3" "map_of items ''DataSourceParameters'' = Some v4"
    using map_of_present[of _ items] by (meson insert_subset)
  with a show "\<exists>r. dump_data_source definition permissions = Inr r"
    by (simp add: dump_data_source_def py_get_def split: option.splits)
qed

theorem dump_data_source_credentials_witness:
  "subscript (JObj [(''DataSourceId'', JStr ''db''), (''Name'', JStr ''Warehouse''),
       (''Type'', JStr ''POSTGRESQL''), (''DataSourceParameters'', JObj []),
       (''Credentials'', JNull), (''Permissions'', JList []),
       (''VpcConnectionProperties'', JNull), (''SslProperties'', JNull),
       (''ErrorInfo'', JNull)]) ''Credentials'' = Inr JNull"
proof -
  have "dump_data_source
      (JObj [(''DataSourceId'', JStr ''db''), (''Name'', JStr ''Warehouse''),
             (''Type'', JStr ''POSTGRESQL''), (''DataSourceParameters'', JObj []),
             (''Credentials'', JStr ''secret'')]) (JList [])
    = Inr (JObj [(''DataSourceId'', JStr ''db''), (''Name'', JStr ''Warehouse''),
       (''Type'', JStr ''POSTGRESQL''), (''DataSourceParameters'', JObj []),
       (''Credentials'', JNull), (''Permissions'', JList []),
       (''VpcConnectionProperties'', JNull), (''SslProperties'', JNull),
       (''ErrorInfo'', JNull)])"
    by (simp add: dump_data_source_def py_get_def)
  with dump_data_source_credentials show ?thesis by blast
qed

subsection \<open>Create or update\<close>

text \<open>
  C9. When the parameters have no \<open>Permissions\<close> key and the create call raises the
  client error whose code is \<open>ResourceExistsException\<close>, \<open>create_or_update_asset\<close>
  raises \<open>KeyError\<close> for \<open>Permissions\<close>. The create call is the only call it has made;
  the update function is not called.
\<close>

theorem create_or_update_asset_without_permissions:
  assumes "''Permissions'' \<notin> set (map fst params)"
    and "create_fn params s = (Inl (ClientError r), s1)"
    and "error_code r = Inr (JStr ''ResourceExistsException'')"
  shows "create_or_update_asset params
           (recorded ''create'' create_fn) (recorded ''update'' update_fn) (s, calls)
         = (Inl (KeyError ''Permissions''),
            (s1, calls @ [(''create'', params, Inl (ClientError r))]))"
proof -
  have "map_of params ''Permissions'' = None"
    using assms(1) by (simp add: map_of_eq_None_iff)
  then show ?thesis
    using assms(2,3) by (simp add: create_or_update_asset_def recorded_def dict_pop_def)
qed

theorem create_or_update_asset_without_permissions_witness:
  "create_or_update_asset [(''Name'', JStr ''Sales''), (''Type'', JStr ''POSTGRESQL'')]
     (recorded ''create'' raise_exists) (recorded ''update'' respond_ok) ((), [])
   = (Inl (KeyError ''Permissions''),
      ((), [(''create'', [(''Name'', JStr ''Sales''), (''Type'', JStr ''POSTGRESQL'')],
             Inl (ClientError exists_response))]))"
proof -
  have "create_or_update_asset [(''Name'', JStr ''Sales''), (''Type'', JStr ''POSTGRESQL'')]
     (recorded ''create'' raise_exists) (recorded ''update'' respond_ok) ((), [])
   = (Inl (KeyError ''Permissions''),
      ((), [] @ [(''create'', [(''Name'', JStr ''Sales''), (''Type'', JStr ''POSTGRESQL'')],
             Inl (ClientError exists_response))]))"
    by (rule create_or_update_asset_without_permissions)
       (simp_all add: raise_exists_def error_code_def exists_response_def)
  then show ?thesis by simp
qed

text \<open>
  The create-or-update policy on parameters that contain \<open>Permissions\<close>: when the create
  call raises the client error whose code is \<open>ResourceExistsException\<close>, the update
  function is called, once, with the parameters without \<open>Permissions\<close> and without
  \<open>Type\<close>, and its response goes through the status test. On all parameters: when the
  create call raises anything else (a client error with another code, or an exception
  that is no client error), the same exception leaves \<open>create_or_update_asset\<close> and the
  create call is the only call made.
\<close>

lemma create_or_update_asset_policy:
  assumes "create_fn params s = (Inl e, s1)"
  shows "(\<forall>r r2 s2. e = ClientError r
            \<and> error_code r = Inr (JStr ''ResourceExistsException'')
            \<and> ''Permissions'' \<in> set (map fst params)
            \<and> update_fn (AList.delete ''Type'' (AList.delete ''Permissions'' params)) s1
                = (r2, s2)
          \<longrightarrow> create_or_update_asset params
                (recorded ''create'' create_fn) (recorded ''update'' update_fn) (s, calls)
              = (bindE r2 check_status,
                 (s2, calls @ [(''create'', params, Inl e),
                      (''update'', AList.delete ''Type'' (AList.delete ''Permissions'' params),
                       r2)])))
       \<and> ((\<forall>r. e = ClientError r
              \<longrightarrow> (\<exists>code. error_code r = Inr code \<and> code \<noteq> JStr ''ResourceExistsException''))
          \<longrightarrow> create_or_update_asset params
                (recorded ''create'' create_fn) (recorded ''update'' update_fn) (s, calls)
              = (Inl e, (s1, calls @ [(''create'', params, Inl e)])))"
proof (intro conjI allI impI)
  fix r r2 s2
  assume a: "e = ClientError r \<and> error_code r = Inr (JStr ''ResourceExistsException'')
    \<and> ''Permissions'' \<in> set (map fst params)
    \<and> update_fn (AList.delete ''Type'' (AList.delete ''Permissions'' params)) s1 = (r2, s2)"
  then obtain v where v: "map_of params ''Permissions'' = Some v"
    by (metis map_of_eq_None_iff not_Some_eq set_map)
  have del: "(if ''Type'' \<in> set (map fst (AList.delete ''Permissions'' params))
              then AList.delete ''Type'' (AList.delete ''Permissions'' params)
              else AList.delete ''Permissions'' params)
             = AList.delete ''Type'' (AList.delete ''Permissions'' params)"
    by (simp add: delete_id)
  show "create_or_update_asset params
          (recorded ''create'' create_fn) (recorded ''update'' update_fn) (s, calls)
        = (bindE r2 check_status,
           (s2, calls @ [(''create'', params, Inl e),
                (''update'', AList.delete ''Type'' (AList.delete ''Permissions'' params), r2)]))"
    using a v assms
    by (cases r2)
       (simp_all add: create_or_update_asset_def recorded_def dict_pop_def del bindS_def
          del: set_map)
next
  assume a: "\<forall>r. e = ClientError r
    \<longrightarrow> (\<exists>code. error_code r = Inr code \<and> code \<noteq> JStr ''ResourceExistsException'')"
  show "create_or_update_asset params
          (recorded ''create'' create_fn) (recorded ''update'' update_fn) (s, calls)
        = (Inl e, (s1, calls @ [(''create'', params, Inl e)]))"
    using a assms
    by (cases e) (auto simp: create_or_update_asset_def recorded_def)
qed


lemma create_or_update_asset_policy_example:
  "create_or_update_asset
     [(''Name'', JStr ''Sales''), (''Type'', JStr ''POSTGRESQL''), (''Permissions'', JList [])]
     (recorded ''create'' raise_exists) (recorded ''update'' respond_ok) ((), [])
   = (Inr (JObj [(''Status'', JInt 200)]),
      ((), [(''create'',
             [(''Name'', JStr ''Sales''), (''Type'', JStr ''POSTGRESQL''),
              (''Permissions'', JList [])],
             Inl (ClientError exists_response)),
            (''update'', [(''Name'', JStr ''Sales'')], Inr (JObj [(''Status'', JInt 200)]))]))
   \<and> create_or_update_asset
     [(''Name'', JStr ''Sales''), (''Type'', JStr ''POSTGRESQL''), (''Permissions'', JList [])]
     (recorded ''create'' raise_denied) (recorded ''update'' respond_ok) ((), [])
   = (Inl (ClientError denied_response),
      ((), [(''create'',
             [(''Name'', JStr ''Sales''), (''Type'', JStr ''POSTGRESQL''),
              (''Permissions'', JList [])],
             Inl (ClientError denied_response))]))"
proof -
  let ?params = "[(''Name'', JStr ''Sales''), (''Type'', JStr ''POSTGRESQL''),
                  (''Permissions'', JList [])]"
  have e1: "raise_exists ?params () = (Inl (ClientError exists_response), ())"
    by (simp add: raise_exists_def)
  have e2: "raise_denied ?params () = (Inl (ClientError denied_response), ())"
    by (simp add: raise_denied_def)
  have u: "respond_ok (AList.delete ''Type'' (AList.delete ''Permissions'' ?params)) ()
           = (Inr (JObj [(''Status'', JInt 200)]), ())"
    by (simp add: respond_ok_def)
  have c1: "error_code exists_response = Inr (JStr ''ResourceExistsException'')"
    by (simp add: error_code_def exists_response_def)
  have c2: "\<forall>r. ClientError denied_response = ClientError r
              \<longrightarrow> (\<exists>code. error_code r = Inr code \<and> code \<noteq> JStr ''ResourceExistsException'')"
    by (simp add: error_code_def denied_response_def)
  have p: "''Permissions'' \<in> set (map fst ?params)"
    by simp
  have a: "create_or_update_asset ?params
             (recorded ''create'' raise_exists) (recorded ''update'' respond_ok) ((), [])
           = (bindE (Inr (JObj [(''Status'', JInt 200)])) check_status,
              ((), [] @ [(''create'', ?params, Inl (ClientError exists_response)),
                     (''update'', AList.delete ''Type'' (AList.delete ''Permissions'' ?params),
                      Inr (JObj [(''Status'', JInt 200)]))]))"
    using create_or_update_asset_policy[where create_fn = raise_exists and params = ?params
        and s = "()" and e = "ClientError exists_response" and ?s1.0 = "()"
        and update_fn = respond_ok and calls = "[]"]
      e1 c1 p u by blast
  have b: "create_or_update_asset ?params
             (recorded ''create'' raise_denied) (recorded ''update'' respond_ok) ((), [])
           = (Inl (ClientError denied_response),
              ((), [] @ [(''create'', ?params, Inl (ClientError denied_response))]))"
    using create_or_update_asset_policy[where create_fn = raise_denied and params = ?params
        and s = "()" and e = "ClientError denied_response" and ?s1.0 = "()"
        and update_fn = respond_ok and calls = "[]"]
      e2 c2 by blast
  have s: "check_status (JObj [(''Status'', JInt 200)]) = Inr (JObj [(''Status'', JInt 200)])"
    by (simp add: check_status_def)
  show ?thesis
    using a b s by simp
qed

text \<open>
  C3, at parameters without \<open>Permissions\<close>: an analysis record with an identifier and a
  name, and a provider whose create call raises the client error with the code
  \<open>ResourceExistsException\<close>. The policy is to call the update function with the
  parameters less \<open>Permissions\<close> and \<open>Type\<close>. The unguarded \<open>pop\<close> of \<open>Permissions\<close>
  raises \<open>KeyError\<close> instead: the create call is the only call in the log and the update
  function is never called. The removal of \<open>Type\<close>, two lines below, is guarded.
\<close>

theorem create_or_update_asset_exists_without_permissions:
  "create_or_update_asset [(''AnalysisId'', JStr ''a1''), (''Name'', JStr ''Sales'')]
     (recorded ''create'' raise_exists) (recorded ''update'' respond_ok) ((), [])
   = (Inl (KeyError ''Permissions''),
      ((), [(''create'', [(''AnalysisId'', JStr ''a1''), (''Name'', JStr ''Sales'')],
             Inl (ClientError exists_response))]))"
  by (simp add: create_or_update_asset_def recorded_def raise_exists_def error_code_def
        exists_response_def dict_pop_def)

subsection \<open>Search-based lookup\<close>

lemma mapE_py_get_dicts:
  "\<forall>m \<in> set ms. \<exists>d. m = JObj d
   \<Longrightarrow> \<exists>ids. mapE (\<lambda>asset. py_get asset k) ms = Inr ids \<and> length ids = length ms"
proof (induction ms)
  case Nil
  show ?case by simp
next
  case (Cons m ms)
  then obtain d where d: "m = JObj d" by auto
  from Cons obtain ids where
    ids: "mapE (\<lambda>asset. py_get asset k) ms = Inr ids" "length ids = length ms"
    by auto
  have "\<exists>v. py_get m k = Inr v"
    by (cases "map_of d k") (simp_all add: d py_get_def)
  then obtain v where "py_get m k = Inr v" ..
  then show ?case
    using ids by simp
qed

lemma find_assets_found:
  assumes "search_fn [(''AwsAccountId'', account_id), (''Filters'', filters),
                      (''MaxResults'', JInt 10)] s = (Inr (JObj response), s')"
    and "map_of response ''Status'' = Some (JInt status)" and "200 \<le> status" and "status < 300"
    and "py_get_default (JObj response) lookup_field (JList []) = Inr (JList matches)"
  shows "find_assets account_id search_fn filters lookup_field s
         = (if matches = [] then Inl (ValueError (NoAssetsFound filters))
            else Inr (JList matches), s')"
proof -
  have st: "check_status (JObj response) = Inr (JObj response)"
    using assms(2-4) by (simp add: check_status_def)
  have sub: "matches \<noteq> [] \<Longrightarrow> subscript (JObj response) lookup_field = Inr (JList matches)"
    using assms(5) by (cases "map_of response lookup_field") auto
  show ?thesis
    by (cases "matches = []")
       (simp_all add: find_assets_def bindS_def assms(1) st assms(5) sub
          del: py_get_default.simps subscript.simps)
qed

text \<open>
  C4. The provider answers the search with a success status and a list of matches, each a
  dictionary. For every filter, \<open>find_asset_id\<close> raises the \<open>ValueError\<close> of
  \<open>No assets found\<close> on an empty list (or a missing lookup field), raises the \<open>ValueError\<close>
  of \<open>Multiple assets found\<close> on two or more matches, and returns \<open>match.get(id_key)\<close> on
  exactly one match.
\<close>

theorem find_asset_id_cardinality:
  assumes "search_fn [(''AwsAccountId'', account_id), (''Filters'', filters),
                      (''MaxResults'', JInt 10)] s = (Inr (JObj response), s')"
    and "map_of response ''Status'' = Some (JInt status)" and "200 \<le> status" and "status < 300"
    and "py_get_default (JObj response) lookup_field (JList []) = Inr (JList matches)"
    and "\<forall>m \<in> set matches. \<exists>d. m = JObj d"
  shows "(matches = [] \<longrightarrow>
            find_asset_id account_id search_fn filters lookup_field id_key s
            = (Inl (ValueError (NoAssetsFound filters)), s'))
       \<and> (2 \<le> length matches \<longrightarrow>
            (\<exists>ids. mapE (\<lambda>asset. py_get asset id_key) matches = Inr ids
               \<and> find_asset_id account_id search_fn filters lookup_field id_key s
                 = (Inl (ValueError (MultipleAssetsFound filters ids)), s')))
       \<and> (\<forall>d. matches = [JObj d] \<longrightarrow>
            find_asset_id account_id search_fn filters lookup_field id_key s
            = (Inr (case map_of d id_key of Some v \<Rightarrow> v | None \<Rightarrow> JNull), s'))"
proof -
  have fa: "find_assets account_id search_fn filters lookup_field s
         = (if matches = [] then Inl (ValueError (NoAssetsFound filters))
            else Inr (JList matches), s')"
    by (rule find_assets_found) (rule assms)+
  have zero: "matches = [] \<longrightarrow>
            find_asset_id account_id search_fn filters lookup_field id_key s
            = (Inl (ValueError (NoAssetsFound filters)), s')"
    by (simp add: find_asset_id_def find_asset_ids_def bindS_def fa)
  obtain ids where ids: "mapE (\<lambda>asset. py_get asset id_key) matches = Inr ids"
      "length ids = length matches"
    using mapE_py_get_dicts[OF assms(6)] by blast
  have many: "2 \<le> length matches \<longrightarrow>
            (\<exists>ids. mapE (\<lambda>asset. py_get asset id_key) matches = Inr ids
               \<and> find_asset_id account_id search_fn filters lookup_field id_key s
                 = (Inl (ValueError (MultipleAssetsFound filters ids)), s'))"
  proof
    assume two: "2 \<le> length matches"
    then have ne: "matches \<noteq> []" by auto
    have "find_asset_id account_id search_fn filters lookup_field id_key s
          = (Inl (ValueError (MultipleAssetsFound filters ids)), s')"
      using two ne ids by (simp add: find_asset_id_def find_asset_ids_def bindS_def fa)
    with ids(1) show "\<exists>ids. mapE (\<lambda>asset. py_get asset id_key) matches = Inr ids
               \<and> find_asset_id account_id search_fn filters lookup_field id_key s
                 = (Inl (ValueError (MultipleAssetsFound filters ids)), s')"
      by blast
  qed
  have one: "\<forall>d. matches = [JObj d] \<longrightarrow>
            find_asset_id account_id search_fn filters lookup_field id_key s
            = (Inr (case map_of d id_key of Some v \<Rightarrow> v | None \<Rightarrow> JNull), s')"
    by (auto simp: find_asset_id_def find_asset_ids_def bindS_def fa py_get_def
          split: option.splits)
  from zero many one show ?thesis by blast
qed

theorem find_asset_id_cardinality_witness:
  "find_asset_id (JStr ''111122223333'') (search_returning []) (JObj [(''Name'', JStr ''Sales'')])
     ''Assets'' ''Id'' ()
   = (Inl (ValueError (NoAssetsFound (JObj [(''Name'', JStr ''Sales'')]))), ())
   \<and> find_asset_id (JStr ''111122223333'')
       (search_returning [JObj [(''Name'', JStr ''Sales''), (''Id'', JStr ''1'')]])
       (JObj [(''Name'', JStr ''Sales'')]) ''Assets'' ''Id'' ()
     = (Inr (JStr ''1''), ())
   \<and> find_asset_id (JStr ''111122223333'')
       (search_returning [JObj [(''Name'', JStr ''Sales''), (''Id'', JStr ''1'')],
                          JObj [(''Name'', JStr ''Sales''), (''Id'', JStr ''2'')]])
       (JObj [(''Name'', JStr ''Sales'')]) ''Assets'' ''Id'' ()
     = (Inl (ValueError (MultipleAssetsFound (JObj [(''Name'', JStr ''Sales'')])
                           [JStr ''1'', JStr ''2''])), ())"
proof -
  let ?acct = "JStr ''111122223333''" and ?f = "JObj [(''Name'', JStr ''Sales'')]"
  let ?m1 = "JObj [(''Name'', JStr ''Sales''), (''Id'', JStr ''1'')]"
  let ?m2 = "JObj [(''Name'', JStr ''Sales''), (''Id'', JStr ''2'')]"
  have call: "search_returning ms [(''AwsAccountId'', ?acct), (''Filters'', ?f),
                 (''MaxResults'', JInt 10)] ()
              = (Inr (JObj [(''Status'', JInt 200), (''Assets'', JList ms)]), ())" for ms
    by (simp add: search_returning_def)
  have st: "map_of [(''Status'', JInt 200), (''Assets'', JList ms)] ''Status'' = Some (JInt 200)"
    for ms by simp
  have found: "py_get_default (JObj [(''Status'', JInt 200), (''Assets'', JList ms)]) ''Assets''
                 (JList []) = Inr (JList ms)" for ms
    by simp
  have r: "(200::int) \<le> 200" "(200::int) < 300" by simp_all
  have d0: "\<forall>m \<in> set []. \<exists>d. m = JObj d" by simp
  have d1: "\<forall>m \<in> set [?m1]. \<exists>d. m = JObj d" by simp
  have d2: "\<forall>m \<in> set [?m1, ?m2]. \<exists>d. m = JObj d" by simp
  note t0 = find_asset_id_cardinality[where search_fn = "search_returning []"
      and account_id = ?acct and filters = ?f and s = "()" and s' = "()" and status = 200
      and response = "[(''Status'', JInt 200), (''Assets'', JList [])]"
      and lookup_field = "''Assets''" and matches = "[]" and id_key = "''Id''",
      OF call st r found d0]
  note t1 = find_asset_id_cardinality[where search_fn = "search_returning [?m1]"
      and account_id = ?acct and filters = ?f and s = "()" and s' = "()" and status = 200
      and response = "[(''Status'', JInt 200), (''Assets'', JList [?m1])]"
      and lookup_field = "''Assets''" and matches = "[?m1]" and id_key = "''Id''",
      OF call st r found d1]
  note t2 = find_asset_id_cardinality[where search_fn = "search_returning [?m1, ?m2]"
      and account_id = ?acct and filters = ?f and s = "()" and s' = "()" and status = 200
      and response = "[(''Status'', JInt 200), (''Assets'', JList [?m1, ?m2])]"
      and lookup_field = "''Assets''" and matches = "[?m1, ?m2]" and id_key = "''Id''",
      OF call st r found d2]
  have a: "find_asset_id ?acct (search_returning []) ?f ''Assets'' ''Id'' ()
           = (Inl (ValueError (NoAssetsFound ?f)), ())"
    using t0 by blast
  have b: "find_asset_id ?acct (search_returning [?m1]) ?f ''Assets'' ''Id'' ()
           = (Inr (JStr ''1''), ())"
    using t1 by simp
  have "2 \<le> length [?m1, ?m2]" by simp
  with t2 obtain ids where ids: "mapE (\<lambda>asset. py_get asset ''Id'') [?m1, ?m2] = Inr ids"
    "find_asset_id ?acct (search_returning [?m1, ?m2]) ?f ''Assets'' ''Id'' ()
     = (Inl (ValueError (MultipleAssetsFound ?f ids)), ())"
    by blast
  from ids(1) have "ids = [JStr ''1'', JStr ''2'']"
    by (simp add: py_get_def)
  with ids(2) have c: "find_asset_id ?acct (search_returning [?m1, ?m2]) ?f ''Assets'' ''Id'' ()
     = (Inl (ValueError (MultipleAssetsFound ?f [JStr ''1'', JStr ''2''])), ())"
    by simp
  from a b c show ?thesis by blast
qed


subsection \<open>Validation of the dump\<close>

lemma import_dump_checks_three_sections:
  assumes "section \<in> {''datasources'', ''analysis_datasets'', ''analysis''}"
    and "section \<notin> set (map fst dump)"
  shows "\<exists>r. import_dump account_id qs (JObj dump) s = (Inl (ValueError (NotInDump r)), s)"
proof (cases "''datasources'' \<in> set (map fst dump)")
  case False
  then show ?thesis by (simp add: import_dump_def del: set_map)
next
  case ds: True
  show ?thesis
  proof (cases "''analysis_datasets'' \<in> set (map fst dump)")
    case False
    with ds show ?thesis by (simp add: import_dump_def del: set_map)
  next
    case True
    with ds assms have "''analysis'' \<notin> set (map fst dump)" by auto
    with ds True show ?thesis by (simp add: import_dump_def del: set_map)
  qed
qed

text \<open>
  C5, at a bundle the code does not reject: the dump has \<open>datasources\<close>,
  \<open>analysis_datasets\<close> and \<open>analysis\<close> but no \<open>security_datasets\<close>. \<open>import_dump\<close>
  creates the data source in the target account and then raises \<open>KeyError\<close>, which is
  no validation error.
\<close>

theorem import_dump_without_security_datasets:
  "import_dump (JStr ''999900001111'') (recording scenario_client) dump_without_security
     ((), [])
   = (Inl (KeyError ''security_datasets''), (),
      [(''create_data_source'',
        [(''DataSourceId'', JStr ''db-imported''), (''Name'', JStr ''Warehouse-imported''),
         (''Type'', JStr ''POSTGRESQL''), (''DataSourceParameters'', JObj []),
         (''Permissions'', JList []), (''AwsAccountId'', JStr ''999900001111'')],
        Inr (JObj [(''Status'', JInt 201),
                   (''Arn'', target_arn ''datasource'' ''db-imported''),
                   (''DataSourceId'', JStr ''db-imported''),
                   (''VersionArn'', target_arn ''datasource'' ''db-imported/version/1'')]))])"
  by code_simp

subsection \<open>The export scenario\<close>

lemma fetch_row_shape:
  "fetch_row g p i s = (Inr row, s')
   \<Longrightarrow> \<exists>d q. row = JObj [(''definition'', d), (''permissions'', q)]"
  by (auto simp: fetch_row_def bindS_eq_Inr)

lemma mapS_fetch_row_no_rls:
  "mapS (fetch_row g p) ids s = (Inr rows, s')
   \<Longrightarrow> \<forall>row \<in> set rows. py_in ''RowLevelPermissionDataSet'' row = Inr False"
proof (induction ids arbitrary: s rows)
  case Nil
  then show ?case by simp
next
  case (Cons i ids)
  from Cons.prems obtain row s1 rest where
    row: "fetch_row g p i s = (Inr row, s1)"
    and rest: "mapS (fetch_row g p) ids s1 = (Inr rest, s')"
    and rows: "rows = row # rest"
    by (auto simp: bindS_eq_Inr)
  from fetch_row_shape[OF row] have "py_in ''RowLevelPermissionDataSet'' row = Inr False"
    by auto
  with Cons.IH[OF rest] rows show ?case by simp
qed

lemma get_rls_dataset_ids_of_rows:
  assumes "mapS (fetch_row g p) ids s = (Inr rows, s')"
  shows "get_rls_dataset_ids rows = Inr []"
proof -
  have "comprehension (py_in ''RowLevelPermissionDataSet'')
          (\<lambda>ds. py_get ds ''RowLevelPermissionDataSet'') rows = Inr []"
    using mapS_fetch_row_no_rls[OF assms] by (rule comprehension_none)
  then show ?thesis by (simp add: get_rls_dataset_ids_def)
qed

text \<open>Whatever the account holds, the export never fetches a security dataset: the rows
  that \<open>get_rls_dataset_ids\<close> is given have the keys \<open>definition\<close> and \<open>permissions\<close>
  only.\<close>

lemma get_dump_security_datasets_always_empty:
  assumes "get_dump account_id qs_client analysis_id s = (Inr bundle, s')"
  shows "subscript bundle ''security_datasets'' = Inr (JList [])"
proof (cases qs_client)
  case None
  with assms show ?thesis by (simp add: get_dump_def split: if_splits)
next
  case (Some qs)
  with assms show ?thesis
    by (auto simp: get_dump_def bindS_eq_Inr bindE_eq_Inr split: if_splits
          dest: get_rls_dataset_ids_of_rows)
qed

text \<open>
  C1, at the scenario: the analysis declares \<open>ds1\<close> and \<open>ds2\<close>, \<open>ds1\<close> has a
  row-level-security reference to \<open>rls1\<close>, and the three datasets read the one data
  source \<open>db\<close>. The bundle has 2 analysis datasets and 1 data source, and no security
  dataset where the claim says 1.
\<close>

theorem get_dump_scenario_sections:
  "bindE (fst (get_dump (JStr ''111122223333'') (Some scenario_client) (JStr ''an1'') ()))
     (\<lambda>bundle. bindE (subscript bundle ''analysis_datasets'') py_len) = Inr 2
   \<and> bindE (fst (get_dump (JStr ''111122223333'') (Some scenario_client) (JStr ''an1'') ()))
     (\<lambda>bundle. bindE (subscript bundle ''security_datasets'') py_len) = Inr 0
   \<and> bindE (fst (get_dump (JStr ''111122223333'') (Some scenario_client) (JStr ''an1'') ()))
     (\<lambda>bundle. bindE (subscript bundle ''datasources'') py_len) = Inr 1"
  by code_simp


subsection \<open>Preparing a dataset for import\<close>

lemma map_of_filter_distinct:
  assumes "distinct (map fst al)"
  shows "map_of (filter keep al) key
         = (if \<exists>v. map_of al key = Some v \<and> keep (key, v) then map_of al key else None)"
  using assms
proof (induction al)
  case Nil
  show ?case by simp
next
  case (Cons entry al)
  obtain k' v' where entry: "entry = (k', v')" by (cases entry)
  from Cons.prems entry have "map_of al k' = None"
    by (simp add: map_of_eq_None_iff)
  moreover from this have "map_of (filter keep al) k' = None"
    by (auto simp: map_of_eq_None_iff)
  moreover from Cons have "map_of (filter keep al) key
         = (if \<exists>v. map_of al key = Some v \<and> keep (key, v) then map_of al key else None)"
    by simp
  ultimately show ?case
    by (auto simp: entry)
qed

lemma definition_lookup:
  assumes "distinct (map fst items)"
    and "k \<noteq> ''Name''" and "k \<noteq> ''AwsAccountId''" and "k \<noteq> ''OutputColumns''"
  shows "map_of (AList.update ''AwsAccountId'' a (AList.update ''Name'' n
           (filter (\<lambda>kv. fst kv \<noteq> ''OutputColumns'' \<and> snd kv \<noteq> JNull) items))) k
         = (case map_of items k of
              None \<Rightarrow> None
            | Some v \<Rightarrow> if v = JNull then None else Some v)"
  using assms(2-4)
  by (cases "map_of items k")
     (simp_all add: update_conv' map_of_filter_distinct[OF assms(1)])

lemma rewrite_table_succeeds_iff:
  "(\<exists>t'. rewrite_table m t = Inr t')
   \<longleftrightarrow> (\<exists>e rel arn. t = JObj e \<and> map_of e ''RelationalTable'' = Some (JObj rel)
         \<and> map_of rel ''DataSourceArn'' = Some (JStr arn)
         \<and> get_id_from_arn arn \<in> set (map fst m))"
proof
  assume "\<exists>t'. rewrite_table m t = Inr t'"
  then obtain t' where ok: "rewrite_table m t = Inr t'" ..
  obtain rel where rel: "subscript t ''RelationalTable'' = Inr rel"
    using ok by (cases "subscript t ''RelationalTable''") (simp_all add: rewrite_table_def)
  obtain a where a: "subscript rel ''DataSourceArn'' = Inr a"
    using ok rel by (cases "subscript rel ''DataSourceArn''") (simp_all add: rewrite_table_def)
  obtain ident where ident: "get_id_from_arn_dyn a = Inr ident"
    using ok rel a by (cases "get_id_from_arn_dyn a") (simp_all add: rewrite_table_def)
  obtain new_arn where new: "lookup m ident = Inr new_arn"
    using ok rel a ident by (cases "lookup m ident") (simp_all add: rewrite_table_def)
  from rel obtain e where e: "t = JObj e" "map_of e ''RelationalTable'' = Some rel"
    by (cases t) (auto split: option.splits)
  from a obtain r where r: "rel = JObj r" "map_of r ''DataSourceArn'' = Some a"
    by (cases rel) (auto split: option.splits)
  from ident obtain arn where arn: "a = JStr arn" "ident = get_id_from_arn arn"
    by (cases a) auto
  from new obtain v where "map_of m ident = Some v"
    by (cases "map_of m ident") (auto simp: lookup_def)
  then have "(ident, v) \<in> set m" by (rule map_of_SomeD)
  then have "ident \<in> set (map fst m)" by force
  with e r arn show "\<exists>e rel arn. t = JObj e \<and> map_of e ''RelationalTable'' = Some (JObj rel)
         \<and> map_of rel ''DataSourceArn'' = Some (JStr arn)
         \<and> get_id_from_arn arn \<in> set (map fst m)"
    by blast
next
  assume "\<exists>e rel arn. t = JObj e \<and> map_of e ''RelationalTable'' = Some (JObj rel)
         \<and> map_of rel ''DataSourceArn'' = Some (JStr arn)
         \<and> get_id_from_arn arn \<in> set (map fst m)"
  then obtain e rel arn where
    h: "t = JObj e" "map_of e ''RelationalTable'' = Some (JObj rel)"
       "map_of rel ''DataSourceArn'' = Some (JStr arn)"
       "get_id_from_arn arn \<in> set (map fst m)"
    by blast
  from h(4) have "\<exists>v. map_of m (get_id_from_arn arn) = Some v"
    by (rule map_of_present)
  then obtain v where "map_of m (get_id_from_arn arn) = Some v" ..
  with h(1-3) show "\<exists>t'. rewrite_table m t = Inr t'"
    by (simp add: rewrite_table_def lookup_def)
qed

lemma mapE_succeeds_iff:
  "(\<exists>ys. mapE f xs = Inr ys) \<longleftrightarrow> (\<forall>x \<in> set xs. \<exists>y. f x = Inr y)"
proof (induction xs)
  case Nil
  show ?case by simp
next
  case (Cons x xs)
  show ?case
  proof (cases "f x")
    case (Inl e)
    then show ?thesis by auto
  next
    case (Inr y)
    then show ?thesis
      using Cons by (cases "mapE f xs") auto
  qed
qed

lemma rewrite_physical_tables_succeeds_iff:
  "(\<exists>ptm'. rewrite_physical_tables m ptm = Inr ptm')
   \<longleftrightarrow> (\<exists>tables. ptm = JObj tables
         \<and> (\<forall>t \<in> snd ` set tables. \<exists>e rel arn. t = JObj e
               \<and> map_of e ''RelationalTable'' = Some (JObj rel)
               \<and> map_of rel ''DataSourceArn'' = Some (JStr arn)
               \<and> get_id_from_arn arn \<in> set (map fst m)))"
proof -
  let ?F = "\<lambda>kt. bindE (rewrite_table m (snd kt)) (\<lambda>table'. Inr (fst kt, table'))"
  have F: "(\<exists>y. ?F kt = Inr y) \<longleftrightarrow> (\<exists>t'. rewrite_table m (snd kt) = Inr t')" for kt
    by (cases "rewrite_table m (snd kt)") auto
  have "(\<exists>ptm'. rewrite_physical_tables m ptm = Inr ptm')
        \<longleftrightarrow> (\<exists>tables. ptm = JObj tables \<and> (\<exists>ys. mapE ?F tables = Inr ys))"
    by (cases ptm) (auto simp: rewrite_physical_tables_def bindE_eq_Inr)
  also have "\<dots> \<longleftrightarrow> (\<exists>tables. ptm = JObj tables
                 \<and> (\<forall>kt \<in> set tables. \<exists>t'. rewrite_table m (snd kt) = Inr t'))"
    by (simp only: mapE_succeeds_iff F)
  also have "\<dots> \<longleftrightarrow> (\<exists>tables. ptm = JObj tables
         \<and> (\<forall>t \<in> snd ` set tables. \<exists>e rel arn. t = JObj e
               \<and> map_of e ''RelationalTable'' = Some (JObj rel)
               \<and> map_of rel ''DataSourceArn'' = Some (JStr arn)
               \<and> get_id_from_arn arn \<in> set (map fst m)))"
    by (simp only: rewrite_table_succeeds_iff ball_simps)
  finally show ?thesis .
qed

lemma rewrite_table_typed:
  assumes "table_typed t"
  shows "(\<exists>t'. rewrite_table m t = Inr t') \<or> (\<exists>key. rewrite_table m t = Inl (KeyError key))"
proof -
  from assms obtain e where e: "t = JObj e"
    by (cases t) (auto simp: table_typed_def)
  show ?thesis
  proof (cases "map_of e ''RelationalTable''")
    case None
    with e show ?thesis by (simp add: rewrite_table_def)
  next
    case (Some rel)
    with assms e obtain r where r: "rel = JObj r"
      by (cases rel) (auto simp: table_typed_def arn_typed_def)
    show ?thesis
    proof (cases "map_of r ''DataSourceArn''")
      case None
      with e Some r show ?thesis by (simp add: rewrite_table_def)
    next
      case a: (Some a)
      with assms e Some r obtain arn where arn: "a = JStr arn"
        by (cases a) (auto simp: table_typed_def arn_typed_def)
      show ?thesis
        using e Some r a arn
        by (cases "map_of m (get_id_from_arn arn)") (simp_all add: rewrite_table_def lookup_def)
    qed
  qed
qed

lemma rewrite_tables_typed:
  assumes "list_all (\<lambda>kt. table_typed (snd kt)) tables"
  shows "(\<exists>ts. mapE (\<lambda>kt. bindE (rewrite_table m (snd kt)) (\<lambda>table'. Inr (fst kt, table')))
                  tables = Inr ts)
       \<or> (\<exists>key. mapE (\<lambda>kt. bindE (rewrite_table m (snd kt)) (\<lambda>table'. Inr (fst kt, table')))
                  tables = Inl (KeyError key))"
  using assms
proof (induction tables)
  case Nil
  show ?case by simp
next
  case (Cons x xs)
  then have "table_typed (snd x)" by simp
  from rewrite_table_typed[OF this, of m] Cons show ?case
    by (auto simp: bindE_def split: sum.splits)
qed

lemma rewrite_tables_key_error:
  assumes "list_all (\<lambda>kt. table_typed (snd kt)) tables"
    and "(k, JObj e) \<in> set tables" and "''RelationalTable'' \<notin> set (map fst e)"
  shows "\<exists>key. mapE (\<lambda>kt. bindE (rewrite_table m (snd kt)) (\<lambda>table'. Inr (fst kt, table')))
                  tables = Inl (KeyError key)"
  using assms
proof (induction tables)
  case Nil
  then show ?case by simp
next
  case (Cons x xs)
  have bad: "rewrite_table m (JObj e) = Inl (KeyError ''RelationalTable'')"
    using Cons.prems(3) by (simp add: rewrite_table_def map_of_eq_None_iff[THEN iffD2])
  from Cons.prems(1) have typed: "table_typed (snd x)" "list_all (\<lambda>kt. table_typed (snd kt)) xs"
    by simp_all
  show ?case
  proof (cases "x = (k, JObj e)")
    case True
    with bad show ?thesis by simp
  next
    case False
    with Cons.prems(2) have "(k, JObj e) \<in> set xs" by simp
    from Cons.IH[OF typed(2) this Cons.prems(3)] obtain key where
      "mapE (\<lambda>kt. bindE (rewrite_table m (snd kt)) (\<lambda>table'. Inr (fst kt, table'))) xs
       = Inl (KeyError key)" ..
    with rewrite_table_typed[OF typed(1), of m] show ?thesis
      by (auto simp: bindE_def split: sum.splits)
  qed
qed

lemma rewrite_physical_tables_typed:
  assumes "list_all (\<lambda>kt. table_typed (snd kt)) tables"
  shows "(\<exists>ptm'. rewrite_physical_tables m (JObj tables) = Inr ptm')
       \<or> (\<exists>key. rewrite_physical_tables m (JObj tables) = Inl (KeyError key))"
  using rewrite_tables_typed[OF assms, of m]
  by (auto simp: rewrite_physical_tables_def)

lemma rewrite_physical_tables_key_error:
  assumes "list_all (\<lambda>kt. table_typed (snd kt)) tables"
    and "(k, JObj e) \<in> set tables" and "''RelationalTable'' \<notin> set (map fst e)"
  shows "\<exists>key. rewrite_physical_tables m (JObj tables) = Inl (KeyError key)"
  using rewrite_tables_key_error[OF assms, of m]
  by (auto simp: rewrite_physical_tables_def)

lemma rewrite_rls_missing:
  assumes "map_of definition ''RowLevelPermissionDataSet'' = Some (JObj rls)"
    and "map_of rls ''Arn'' = Some (JStr arn)"
    and "get_id_from_arn arn \<notin> set (map fst m)"
  shows "rewrite_rls m definition = Inl (KeyError (get_id_from_arn arn))"
proof -
  have none: "map_of m (get_id_from_arn arn) = None"
    using assms(3) by (simp add: map_of_eq_None_iff)
  have has: "''Arn'' \<in> set (map fst rls)"
    using map_of_SomeD[OF assms(2)] by force
  show ?thesis
    using has by (simp add: rewrite_rls_def assms(1,2) lookup_def none del: set_map)
qed

lemma prepare_dataset_definition_unnamed:
  assumes "map_of items ''Name'' = None"
  shows "prepare_dataset_definition account_id (JObj items) dsm dm = Inl (KeyError ''Name'')"
  by (simp add: prepare_dataset_definition_def assms)

lemma prepare_dataset_definition_named:
  assumes "distinct (map fst items)" and "map_of items ''Name'' = Some (JStr nm)"
  shows "prepare_dataset_definition account_id (JObj items) dsm dm =
     (case map_of items ''PhysicalTableMap'' of
        None \<Rightarrow> Inl (KeyError ''PhysicalTableMap'')
      | Some ptm \<Rightarrow>
          if ptm = JNull then Inl (KeyError ''PhysicalTableMap'')
          else bindE (rewrite_physical_tables dsm ptm) (\<lambda>ptm'.
               bindE (rewrite_rls dm
                        (AList.update ''PhysicalTableMap'' ptm'
                          (AList.update ''AwsAccountId'' account_id
                            (AList.update ''Name'' (JStr (nm @ IMPORT_SUFFIX))
                              (filter (\<lambda>kv. fst kv \<noteq> ''OutputColumns'' \<and> snd kv \<noteq> JNull)
                                 items))))) (\<lambda>d.
               Inr (d, dataset_after items d))))"
proof -
  have look: "map_of (AList.update ''AwsAccountId'' account_id
                 (AList.update ''Name'' (JStr (nm @ IMPORT_SUFFIX))
                   (filter (\<lambda>kv. fst kv \<noteq> ''OutputColumns'' \<and> snd kv \<noteq> JNull) items)))
               ''PhysicalTableMap''
              = (case map_of items ''PhysicalTableMap'' of
                   None \<Rightarrow> None | Some v \<Rightarrow> if v = JNull then None else Some v)"
    by (rule definition_lookup[OF assms(1)]) simp_all
  show ?thesis
    by (simp add: prepare_dataset_definition_def assms(2) Let_def look split: option.splits)
qed

lemma prepared_rls_lookup:
  assumes "distinct (map fst items)"
  shows "map_of (AList.update ''PhysicalTableMap'' ptm'
           (AList.update ''AwsAccountId'' a (AList.update ''Name'' n
             (filter (\<lambda>kv. fst kv \<noteq> ''OutputColumns'' \<and> snd kv \<noteq> JNull) items))))
           ''RowLevelPermissionDataSet''
         = (case map_of items ''RowLevelPermissionDataSet'' of
              None \<Rightarrow> None | Some v \<Rightarrow> if v = JNull then None else Some v)"
proof -
  have "map_of (AList.update ''AwsAccountId'' a (AList.update ''Name'' n
             (filter (\<lambda>kv. fst kv \<noteq> ''OutputColumns'' \<and> snd kv \<noteq> JNull) items)))
           ''RowLevelPermissionDataSet''
         = (case map_of items ''RowLevelPermissionDataSet'' of
              None \<Rightarrow> None | Some v \<Rightarrow> if v = JNull then None else Some v)"
    by (rule definition_lookup[OF assms]) simp_all
  then show ?thesis
    by (simp add: update_conv')
qed

text \<open>
  C10. On every dataset record of the shape \<open>dataset_typed\<close>:
  when its physical table map has an entry without \<open>RelationalTable\<close>,
  \<open>prepare_dataset_definition\<close> raises \<open>KeyError\<close>; when its row-level-security
  reference names an identifier that the dataset remap table lacks, it raises
  \<open>KeyError\<close>. For every physical table map, the rewrite loop succeeds exactly when the map
  is a dictionary whose every entry has a \<open>RelationalTable\<close> dictionary with a string
  \<open>DataSourceArn\<close> whose identifier is a key of the data-source remap table; and
  \<open>prepare_dataset_definition\<close> returns only when that loop succeeded on the dataset's
  map.
\<close>

theorem prepare_dataset_definition_key_errors:
  assumes "dataset_typed dataset"
  shows "(\<forall>tables k e. subscript dataset ''PhysicalTableMap'' = Inr (JObj tables)
            \<and> (k, JObj e) \<in> set tables \<and> ''RelationalTable'' \<notin> set (map fst e)
          \<longrightarrow> (\<exists>key. prepare_dataset_definition account_id dataset dsm dm
                       = Inl (KeyError key)))
       \<and> (\<forall>rls arn. subscript dataset ''RowLevelPermissionDataSet'' = Inr (JObj rls)
            \<and> map_of rls ''Arn'' = Some (JStr arn)
            \<and> get_id_from_arn arn \<notin> set (map fst dm)
          \<longrightarrow> (\<exists>key. prepare_dataset_definition account_id dataset dsm dm
                       = Inl (KeyError key)))
       \<and> (\<forall>ptm. (\<exists>ptm'. rewrite_physical_tables dsm ptm = Inr ptm')
            \<longleftrightarrow> (\<exists>tables. ptm = JObj tables
                  \<and> (\<forall>t \<in> snd ` set tables. \<exists>e rel arn. t = JObj e
                        \<and> map_of e ''RelationalTable'' = Some (JObj rel)
                        \<and> map_of rel ''DataSourceArn'' = Some (JStr arn)
                        \<and> get_id_from_arn arn \<in> set (map fst dsm))))
       \<and> (\<forall>res. prepare_dataset_definition account_id dataset dsm dm = Inr res
          \<longrightarrow> (\<exists>ptm ptm'. subscript dataset ''PhysicalTableMap'' = Inr ptm
                  \<and> rewrite_physical_tables dsm ptm = Inr ptm'))"
proof -
  from assms obtain items where ds: "dataset = JObj items"
    by (cases dataset) (auto simp: dataset_typed_def)
  from assms ds have dist: "distinct (map fst items)"
    and name_t: "case map_of items ''Name'' of None \<Rightarrow> True | Some n \<Rightarrow> is_str n"
    and ptm_t: "case map_of items ''PhysicalTableMap'' of
                  None \<Rightarrow> True
                | Some JNull \<Rightarrow> True
                | Some (JObj tables) \<Rightarrow> list_all (\<lambda>kt. table_typed (snd kt)) tables
                | Some _ \<Rightarrow> False"
    by (simp_all add: dataset_typed_def)
  have named: "\<exists>nm. map_of items ''Name'' = Some (JStr nm)" if "map_of items ''Name'' \<noteq> None"
  proof -
    from that obtain n where n: "map_of items ''Name'' = Some n" by auto
    with name_t show ?thesis by (cases n) auto
  qed
  have a: "\<exists>key. prepare_dataset_definition account_id dataset dsm dm = Inl (KeyError key)"
    if h: "subscript dataset ''PhysicalTableMap'' = Inr (JObj tables)
           \<and> (k, JObj e) \<in> set tables \<and> ''RelationalTable'' \<notin> set (map fst e)"
    for tables k e
  proof (cases "map_of items ''Name''")
    case None
    then show ?thesis by (simp add: ds prepare_dataset_definition_unnamed)
  next
    case (Some n)
    with named obtain nm where nm: "map_of items ''Name'' = Some (JStr nm)" by auto
    from h ds have p: "map_of items ''PhysicalTableMap'' = Some (JObj tables)"
      by (cases "map_of items ''PhysicalTableMap''") auto
    with ptm_t have typed: "list_all (\<lambda>kt. table_typed (snd kt)) tables" by simp
    from h have "(k, JObj e) \<in> set tables" "''RelationalTable'' \<notin> set (map fst e)"
      by simp_all
    from rewrite_physical_tables_key_error[OF typed this, of dsm] obtain key where
      "rewrite_physical_tables dsm (JObj tables) = Inl (KeyError key)" ..
    then show ?thesis
      by (simp add: ds prepare_dataset_definition_named[OF dist nm] p)
  qed
  have b: "\<exists>key. prepare_dataset_definition account_id dataset dsm dm = Inl (KeyError key)"
    if h: "subscript dataset ''RowLevelPermissionDataSet'' = Inr (JObj rls)
           \<and> map_of rls ''Arn'' = Some (JStr arn)
           \<and> get_id_from_arn arn \<notin> set (map fst dm)"
    for rls arn
  proof (cases "map_of items ''Name''")
    case None
    then show ?thesis by (simp add: ds prepare_dataset_definition_unnamed)
  next
    case (Some n)
    with named obtain nm where nm: "map_of items ''Name'' = Some (JStr nm)" by auto
    note unfold = prepare_dataset_definition_named[OF dist nm, of account_id dsm dm]
    from h ds have r: "map_of items ''RowLevelPermissionDataSet'' = Some (JObj rls)"
      by (cases "map_of items ''RowLevelPermissionDataSet''") auto
    show ?thesis
    proof (cases "map_of items ''PhysicalTableMap''")
      case None
      then show ?thesis by (simp add: ds unfold)
    next
      case (Some ptm)
      show ?thesis
      proof (cases "ptm = JNull")
        case True
        with Some show ?thesis by (simp add: ds unfold)
      next
        case False
        with ptm_t Some obtain tables where t: "ptm = JObj tables"
          and typed: "list_all (\<lambda>kt. table_typed (snd kt)) tables"
          by (cases ptm) auto
        from rewrite_physical_tables_typed[OF typed, of dsm] show ?thesis
        proof
          assume "\<exists>key. rewrite_physical_tables dsm (JObj tables) = Inl (KeyError key)"
          then obtain key where
            "rewrite_physical_tables dsm (JObj tables) = Inl (KeyError key)" ..
          then show ?thesis by (simp add: ds unfold Some t)
        next
          assume "\<exists>ptm'. rewrite_physical_tables dsm (JObj tables) = Inr ptm'"
          then obtain ptm' where ok: "rewrite_physical_tables dsm (JObj tables) = Inr ptm'" ..
          have "map_of (AList.update ''PhysicalTableMap'' ptm'
                  (AList.update ''AwsAccountId'' account_id
                    (AList.update ''Name'' (JStr (nm @ IMPORT_SUFFIX))
                      (filter (\<lambda>kv. fst kv \<noteq> ''OutputColumns'' \<and> snd kv \<noteq> JNull) items))))
                  ''RowLevelPermissionDataSet'' = Some (JObj rls)"
            by (simp add: prepared_rls_lookup[OF dist] r)
          from rewrite_rls_missing[OF this] h
          have "rewrite_rls dm (AList.update ''PhysicalTableMap'' ptm'
                  (AList.update ''AwsAccountId'' account_id
                    (AList.update ''Name'' (JStr (nm @ IMPORT_SUFFIX))
                      (filter (\<lambda>kv. fst kv \<noteq> ''OutputColumns'' \<and> snd kv \<noteq> JNull) items))))
                = Inl (KeyError (get_id_from_arn arn))"
            by simp
          then show ?thesis by (simp add: ds unfold Some t ok)
        qed
      qed
    qed
  qed
  have d: "\<exists>ptm ptm'. subscript dataset ''PhysicalTableMap'' = Inr ptm
                  \<and> rewrite_physical_tables dsm ptm = Inr ptm'"
    if ok: "prepare_dataset_definition account_id dataset dsm dm = Inr res" for res
  proof (cases "map_of items ''Name''")
    case None
    with ok show ?thesis by (simp add: ds prepare_dataset_definition_unnamed)
  next
    case (Some n)
    with named obtain nm where nm: "map_of items ''Name'' = Some (JStr nm)" by auto
    note unfold = prepare_dataset_definition_named[OF dist nm, of account_id dsm dm]
    show ?thesis
    proof (cases "map_of items ''PhysicalTableMap''")
      case None
      with ok show ?thesis by (simp add: ds unfold)
    next
      case (Some ptm)
      show ?thesis
      proof (cases "rewrite_physical_tables dsm ptm")
        case (Inl e)
        with ok Some show ?thesis by (simp add: ds unfold split: if_splits)
      next
        case (Inr ptm')
        with Some show ?thesis by (simp add: ds)
      qed
    qed
  qed
  from a b d rewrite_physical_tables_succeeds_iff[of dsm] show ?thesis
    by (intro conjI allI impI) blast+
qed

theorem prepare_dataset_definition_key_errors_witness:
  "(\<exists>key. prepare_dataset_definition (JStr ''999900001111'') dataset_custom_sql
             datasource_remap [] = Inl (KeyError key))
   \<and> (\<exists>key. prepare_dataset_definition (JStr ''999900001111'') dataset_with_rls
             datasource_remap [] = Inl (KeyError key))
   \<and> (\<exists>ptm'. rewrite_physical_tables datasource_remap
               (JObj [(''t1'', relational_table (source_arn ''datasource'' ''db''))])
             = Inr ptm')"
proof -
  let ?sql = "[(''CustomSql'', JObj [(''DataSourceArn'', source_arn ''datasource'' ''db''),
                                     (''SqlQuery'', JStr ''select 1'')])]"
  let ?tables = "[(''t1'', relational_table (source_arn ''datasource'' ''db'')),
                  (''t2'', JObj ?sql)]"
  let ?arn = "''arn:aws:quicksight:us-east-1:111122223333:'' @ ''dataset'' @ ''/'' @ ''rls1''"
  have t1: "dataset_typed dataset_custom_sql" by code_simp
  have t2: "dataset_typed dataset_with_rls" by code_simp
  have h1: "subscript dataset_custom_sql ''PhysicalTableMap'' = Inr (JObj ?tables)
            \<and> (''t2'', JObj ?sql) \<in> set ?tables
            \<and> ''RelationalTable'' \<notin> set (map fst ?sql)"
    by (simp add: dataset_custom_sql_def)
  have h2: "subscript dataset_with_rls ''RowLevelPermissionDataSet''
              = Inr (JObj [(''Arn'', source_arn ''dataset'' ''rls1'')])
            \<and> map_of [(''Arn'', source_arn ''dataset'' ''rls1'')] ''Arn'' = Some (JStr ?arn)
            \<and> get_id_from_arn ?arn \<notin> set (map fst ([] :: dict))"
    by (simp add: dataset_with_rls_def scenario_dataset_def source_arn_def)
  have id: "get_id_from_arn ''arn:aws:quicksight:us-east-1:111122223333:datasource/db''
            = ''db''"
    by code_simp
  have h3: "\<exists>tables. JObj [(''t1'', relational_table (source_arn ''datasource'' ''db''))]
                = JObj tables
            \<and> (\<forall>t \<in> snd ` set tables. \<exists>e rel arn. t = JObj e
                  \<and> map_of e ''RelationalTable'' = Some (JObj rel)
                  \<and> map_of rel ''DataSourceArn'' = Some (JStr arn)
                  \<and> get_id_from_arn arn \<in> set (map fst datasource_remap))"
    by (simp add: relational_table_def source_arn_def datasource_remap_def id)
  note k1 = prepare_dataset_definition_key_errors[OF t1,
      where account_id = "JStr ''999900001111''" and dsm = datasource_remap and dm = "[]"]
  note k2 = prepare_dataset_definition_key_errors[OF t2,
      where account_id = "JStr ''999900001111''" and dsm = datasource_remap and dm = "[]"]
  have a: "\<exists>key. prepare_dataset_definition (JStr ''999900001111'') dataset_custom_sql
             datasource_remap [] = Inl (KeyError key)"
    by (rule k1[THEN conjunct1, rule_format, OF h1])
  have b: "\<exists>key. prepare_dataset_definition (JStr ''999900001111'') dataset_with_rls
             datasource_remap [] = Inl (KeyError key)"
    by (rule k2[THEN conjunct2, THEN conjunct1, rule_format, OF h2])
  have c: "\<exists>ptm'. rewrite_physical_tables datasource_remap
               (JObj [(''t1'', relational_table (source_arn ''datasource'' ''db''))])
             = Inr ptm'"
    by (rule k1[THEN conjunct2, THEN conjunct2, THEN conjunct1, THEN spec, THEN iffD2, OF h3])
  from a b c show ?thesis by (intro conjI)
qed


subsection \<open>Calls of the import\<close>


lemma only_calls_ret: "only_calls N (ret a)"
  by (simp add: only_calls_def)

lemma only_calls_bindS:
  assumes "only_calls N m" and "\<And>a. only_calls N (f a)"
  shows "only_calls N (bindS m f)"
  unfolding only_calls_def
proof
  fix w
  obtain r w1 where mw: "m w = (r, w1)" by (cases "m w")
  from assms(1) mw obtain new1 where n1: "snd w1 = snd w @ new1" "fst ` set new1 \<subseteq> N"
    unfolding only_calls_def by (metis snd_conv)
  show "\<exists>new. snd (snd (bindS m f w)) = snd w @ new \<and> fst ` set new \<subseteq> N"
  proof (cases r)
    case (Inl e)
    with mw n1 show ?thesis by (auto simp: bindS_def)
  next
    case (Inr a)
    from assms(2)[of a] obtain new2 where
      n2: "snd (snd (f a w1)) = snd w1 @ new2" "fst ` set new2 \<subseteq> N"
      unfolding only_calls_def by blast
    have "snd (snd (bindS m f w)) = snd w @ (new1 @ new2)"
      using mw Inr n1 n2 by (simp add: bindS_def)
    moreover have "fst ` set (new1 @ new2) \<subseteq> N"
      using n1 n2 by auto
    ultimately show ?thesis by blast
  qed
qed

lemma only_calls_mapS:
  assumes "\<And>x. only_calls N (f x)"
  shows "only_calls N (mapS f xs)"
proof (induction xs)
  case Nil
  show ?case by (simp only: mapS.simps only_calls_ret)
next
  case (Cons x xs)
  show ?case
    by (simp only: mapS.simps)
       (intro only_calls_bindS assms Cons only_calls_ret)
qed











subsection \<open>The data source stage\<close>




subsection \<open>The dataset stage\<close>








lemma import_datasets_empty:
  "import_datasets account_id qs (JList []) dsm dm w = (Inr ([], JList []), w)"
  by (simp add: import_datasets_def)


subsection \<open>The import of one data source and one dataset\<close>









end
